theory Spec2Isabelle
  imports Main
begin

section \<open>JavaScript values\<close>

text \<open>
  The client handles values parsed from JSON (response bodies) and strings read from
  form fields and from \<^verbatim>\<open>localStorage\<close>. A JSON value is one of the constructors
  below; \<open>JUndefined\<close> is what reading a property that is not there gives. An object
  is the list of its own properties, with distinct keys, as \<^verbatim>\<open>JSON.parse\<close> builds
  it. Numbers are integers: the only numbers the client computes with are counts and
  page numbers. Strings are lists of 8-bit code units.
\<close>

datatype jsval =
    JUndefined
  | JNull
  | JBool bool
  | JNum int
  | JStr string
  | JArr "jsval list"
  | JObj "(string \<times> jsval) list"

text \<open>
  What the program can throw: \<^verbatim>\<open>new Error(message)\<close>; the engine's \<open>TypeError\<close>
  (a property of \<^verbatim>\<open>null\<close> or \<^verbatim>\<open>undefined\<close>, a call of something that is no function,
  a value with no text form, a failed \<^verbatim>\<open>fetch\<close>); the \<open>SyntaxError\<close> of
  \<^verbatim>\<open>response.json()\<close> on a body that is not JSON; and a \<^verbatim>\<open>Response\<close> object passed to
  \<^verbatim>\<open>Promise.reject\<close>. The engine writes the messages of the second and the third.
\<close>

datatype error = Error string | TypeError | SyntaxError | RejectedResponse

text \<open>Truthiness, as \<^verbatim>\<open>!x\<close>, \<^verbatim>\<open>if (x)\<close> and \<^verbatim>\<open>x || y\<close> read it.\<close>

fun truthy :: "jsval \<Rightarrow> bool" where
  "truthy JUndefined = False"
| "truthy JNull = False"
| "truthy (JBool b) = b"
| "truthy (JNum n) = (n \<noteq> 0)"
| "truthy (JStr s) = (s \<noteq> [])"
| "truthy (JArr xs) = True"
| "truthy (JObj kvs) = True"

text \<open>\<^verbatim>\<open>a || b\<close>.\<close>

definition js_or :: "jsval \<Rightarrow> jsval \<Rightarrow> jsval" where
  "js_or a b = (if truthy a then a else b)"

text \<open>
  \<^verbatim>\<open>v.k\<close>: a \<open>TypeError\<close> on \<^verbatim>\<open>null\<close> and \<^verbatim>\<open>undefined\<close>, the own property of an
  object, and \<^verbatim>\<open>undefined\<close> otherwise. None of the property names the program reads
  (\<^verbatim>\<open>message\<close>, \<^verbatim>\<open>data\<close>, \<^verbatim>\<open>accessToken\<close>, \<^verbatim>\<open>meta\<close>, \<^verbatim>\<open>isLastPage\<close>, \<^verbatim>\<open>tags\<close>, \<^verbatim>\<open>_count\<close>,
  \<^verbatim>\<open>reactions\<close>, \<^verbatim>\<open>author\<close>, \<^verbatim>\<open>name\<close>, \<^verbatim>\<open>media\<close>, \<^verbatim>\<open>url\<close>, \<^verbatim>\<open>alt\<close>, \<^verbatim>\<open>created\<close>, \<^verbatim>\<open>title\<close>,
  \<^verbatim>\<open>body\<close>, \<^verbatim>\<open>id\<close>) is inherited from a prototype of a JSON value.
\<close>

fun js_get :: "jsval \<Rightarrow> string \<Rightarrow> error + jsval" where
  "js_get JUndefined k = Inl TypeError"
| "js_get JNull k = Inl TypeError"
| "js_get (JObj kvs) k = Inr (case map_of kvs k of None \<Rightarrow> JUndefined | Some v \<Rightarrow> v)"
| "js_get v k = Inr JUndefined"

text \<open>\<^verbatim>\<open>v?.k\<close>: \<^verbatim>\<open>undefined\<close> instead of the \<open>TypeError\<close>.\<close>

fun js_get_opt :: "jsval \<Rightarrow> string \<Rightarrow> jsval" where
  "js_get_opt (JObj kvs) k = (case map_of kvs k of None \<Rightarrow> JUndefined | Some v \<Rightarrow> v)"
| "js_get_opt v k = JUndefined"

text \<open>
  \<^verbatim>\<open>v?.[i]\<close> for an index \<open>i\<close>: an element of an array, a one-character string of a
  string, the property named by the index of an object.
\<close>

fun show_nat :: "nat \<Rightarrow> string" where
  "show_nat n =
     (if n < 10 then [''0123456789'' ! n]
      else show_nat (n div 10) @ [''0123456789'' ! (n mod 10)])"

declare show_nat.simps [simp del]

definition show_int :: "int \<Rightarrow> string" where
  "show_int i = (if i < 0 then CHR ''-'' # show_nat (nat (- i)) else show_nat (nat i))"

fun js_index_opt :: "jsval \<Rightarrow> nat \<Rightarrow> jsval" where
  "js_index_opt (JArr xs) i = (if i < length xs then xs ! i else JUndefined)"
| "js_index_opt (JStr s) i = (if i < length s then JStr [s ! i] else JUndefined)"
| "js_index_opt (JObj kvs) i =
     (case map_of kvs (show_nat i) of None \<Rightarrow> JUndefined | Some v \<Rightarrow> v)"
| "js_index_opt v i = JUndefined"

text \<open>
  The text of a value (\<^verbatim>\<open>ToString\<close>), as a template literal, \<^verbatim>\<open>new Error\<close> and
  \<^verbatim>\<open>localStorage.setItem\<close> take it. An array joins the texts of its elements with
  commas, \<^verbatim>\<open>null\<close> and \<^verbatim>\<open>undefined\<close> elements giving the empty text. An object prints as
  \<^verbatim>\<open>[object Object]\<close>, unless it has an own property \<^verbatim>\<open>toString\<close>: a JSON value is
  never a function, the inherited \<^verbatim>\<open>valueOf\<close> returns the object itself, and the
  conversion throws a \<open>TypeError\<close>. An integer prints in decimal (as JavaScript does
  below \<open>10\<^sup>2\<^sup>1\<close>).
\<close>

fun js_to_string :: "jsval \<Rightarrow> error + string"
  and js_join :: "jsval list \<Rightarrow> error + string" where
  "js_to_string JUndefined = Inr ''undefined''"
| "js_to_string JNull = Inr ''null''"
| "js_to_string (JBool b) = Inr (if b then ''true'' else ''false'')"
| "js_to_string (JNum n) = Inr (show_int n)"
| "js_to_string (JStr s) = Inr s"
| "js_to_string (JArr xs) = js_join xs"
| "js_to_string (JObj kvs) =
     (if map_of kvs ''toString'' = None then Inr ''[object Object]'' else Inl TypeError)"
| "js_join [] = Inr []"
| "js_join (x # xs) =
     (case (if x = JUndefined \<or> x = JNull then Inr [] else js_to_string x) of
        Inl e \<Rightarrow> Inl e
      | Inr s \<Rightarrow>
          (if xs = [] then Inr s
           else (case js_join xs of Inl e \<Rightarrow> Inl e | Inr t \<Rightarrow> Inr (s @ '','' @ t))))"

section \<open>The browser and the server\<close>

text \<open>
  A request as \<^verbatim>\<open>fetch\<close> is given it. The body is the value handed to
  \<^verbatim>\<open>JSON.stringify\<close>. A response is its status and what \<^verbatim>\<open>response.json()\<close> makes of
  its body: \<open>None\<close> when the body is not JSON. \<^verbatim>\<open>response.ok\<close> is a status from 200
  to 299. The server is a function from the request to what \<^verbatim>\<open>fetch\<close> settles with.
\<close>

record request =
  req_url :: string
  req_method :: string
  req_headers :: "(string \<times> string) list"
  req_body :: "jsval option"

record response =
  status :: nat
  json :: "jsval option"

definition ok :: "response \<Rightarrow> bool" where
  "ok r = (200 \<le> status r \<and> status r \<le> 299)"

datatype fetched = NetworkFailure | Responded response

type_synonym network = "request \<Rightarrow> fetched"

text \<open>
  The page. A form control has a value, the default value \<^verbatim>\<open>form.reset()\<close> restores,
  and the form that owns it (the HTML fixes both; it is not among the sources). A form
  is the list of its \<^verbatim>\<open>submit\<close> listeners, in the order they were added. An alert is
  a text, or a text followed by the message of a caught error
  (\<^verbatim>\<open>"..." + error.message\<close>), or a text followed by the caught value itself
  (\<^verbatim>\<open>"..." + error\<close>).
\<close>

record control =
  val :: string
  dflt :: string
  owner :: "string option"

datatype handler = CreatePost | UpdatePost | OtherHandler string

datatype alert_text = Text string | WithMessage string error | WithValue string error

text \<open>
  A rendered post: the texts that fill the placeholders of the HTML template, in the
  order of the template (the fixed markup around them is left out). The date is printed
  by \<^verbatim>\<open>toLocaleDateString\<close> in the browser's locale: the model keeps the value the
  date is made from. A card also carries the \<^verbatim>\<open>id\<close> its click handler navigates to.
\<close>

record card =
  card_image :: string
  card_alt :: string
  card_location :: string
  card_created :: jsval
  card_reactions :: string
  card_title :: string
  card_body :: string
  card_author :: string
  card_id :: jsval

record detail =
  detail_image :: string
  detail_alt :: string
  detail_location :: string
  detail_created :: jsval
  detail_reactions :: string
  detail_title :: string
  detail_body :: string
  detail_author :: string

text \<open>
  Everything the program reads and writes: \<^verbatim>\<open>localStorage\<close>,
  \<^verbatim>\<open>window.location.href\<close>, the clock, the alerts shown and the requests issued so far
  (oldest first), the form controls and forms by their \<^verbatim>\<open>id\<close> (\<open>None\<close>: no such
  element), the text of \<^verbatim>\<open>#submitButton\<close>, the children of \<^verbatim>\<open>#postsContainer\<close>, the
  \<^verbatim>\<open>disabled\<close> flag of \<^verbatim>\<open>#loadMoreBtn\<close>, the content of \<^verbatim>\<open>#postDetails\<close> and
  \<^verbatim>\<open>document.title\<close>. \<^verbatim>\<open>console.error\<close> and \<^verbatim>\<open>scrollIntoView\<close> change none of these and
  are left out.
\<close>

record world =
  localStorage :: "string \<rightharpoonup> string"
  href :: string
  clock :: string
  alerts :: "alert_text list"
  requests :: "request list"
  controls :: "string \<rightharpoonup> control"
  forms :: "string \<rightharpoonup> handler list"
  submitButton :: "string option"
  postsContainer :: "card list option"
  loadMoreBtn :: "bool option"
  postDetails :: "detail list option"
  docTitle :: string

text \<open>
  A piece of program takes the world and returns the world it leaves, with its result
  or the error it threw. \<open>js_catch\<close> is \<^verbatim>\<open>try { } catch (error) { }\<close> and the
  \<^verbatim>\<open>.catch\<close> of a promise chain; a promise chain is run to its end in one go.
\<close>

type_synonym 'a js = "world \<Rightarrow> (error + 'a) \<times> world"

definition js_return :: "'a \<Rightarrow> 'a js" where
  "js_return x w = (Inr x, w)"

definition js_throw :: "error \<Rightarrow> 'a js" where
  "js_throw e w = (Inl e, w)"

definition js_lift :: "error + 'a \<Rightarrow> 'a js" where
  "js_lift r w = (r, w)"

definition js_gets :: "(world \<Rightarrow> 'a) \<Rightarrow> 'a js" where
  "js_gets f w = (Inr (f w), w)"

definition js_bind :: "'a js \<Rightarrow> ('a \<Rightarrow> 'b js) \<Rightarrow> 'b js" where
  "js_bind m f w = (case m w of (Inl e, w') \<Rightarrow> (Inl e, w') | (Inr x, w') \<Rightarrow> f x w')"

definition js_then :: "unit js \<Rightarrow> 'b js \<Rightarrow> 'b js" where
  "js_then m n = js_bind m (\<lambda>_. n)"

definition js_catch :: "'a js \<Rightarrow> (error \<Rightarrow> 'a js) \<Rightarrow> 'a js" where
  "js_catch m h w = (case m w of (Inl e, w') \<Rightarrow> h e w' | (Inr x, w') \<Rightarrow> (Inr x, w'))"

definition getValue :: "string \<Rightarrow> string js" where
  "getValue i w =
     (case controls w i of None \<Rightarrow> (Inl TypeError, w) | Some c \<Rightarrow> (Inr (val c), w))"

definition setValue :: "string \<Rightarrow> string \<Rightarrow> unit js" where
  "setValue i v w =
     (case controls w i of
        None \<Rightarrow> (Inl TypeError, w)
      | Some c \<Rightarrow> (Inr (), w\<lparr>controls := (controls w)(i \<mapsto> c\<lparr>val := v\<rparr>)\<rparr>))"

definition formReset :: "string \<Rightarrow> unit js" where
  "formReset f w =
     (case forms w f of
        None \<Rightarrow> (Inl TypeError, w)
      | Some hs \<Rightarrow>
          (Inr (), w\<lparr>controls :=
             (\<lambda>i. map_option (\<lambda>c. if owner c = Some f then c\<lparr>val := dflt c\<rparr> else c)
                    (controls w i))\<rparr>))"

definition alert :: "alert_text \<Rightarrow> unit js" where
  "alert a w = (Inr (), w\<lparr>alerts := alerts w @ [a]\<rparr>)"

definition setHref :: "string \<Rightarrow> unit js" where
  "setHref u w = (Inr (), w\<lparr>href := u\<rparr>)"

definition fetch :: "request \<Rightarrow> network \<Rightarrow> response js" where
  "fetch q net w =
     (let w' = w\<lparr>requests := requests w @ [q]\<rparr>
      in case net q of
           NetworkFailure \<Rightarrow> (Inl TypeError, w')
         | Responded r \<Rightarrow> (Inr r, w'))"

definition response_json :: "response \<Rightarrow> error + jsval" where
  "response_json r = (case json r of None \<Rightarrow> Inl SyntaxError | Some v \<Rightarrow> Inr v)"

section \<open>login.js\<close>

text \<open>
  \<^verbatim>\<open>String.prototype.trim\<close> removes white space and line terminators from both ends:
  of the 8-bit code units, 9 to 13, 32 and 160.
\<close>

definition isSpace :: "char \<Rightarrow> bool" where
  "isSpace c = (let n = (of_char c :: nat) in (9 \<le> n \<and> n \<le> 13) \<or> n = 32 \<or> n = 160)"

definition trim :: "string \<Rightarrow> string" where
  "trim s = rev (dropWhile isSpace (rev (dropWhile isSpace s)))"

text \<open>\<^verbatim>\<open>/^[a-zA-Z0-9_]+$/\<close>: one or more characters, each a letter, a digit or \<open>_\<close>.\<close>

definition wordChar :: "char \<Rightarrow> bool" where
  "wordChar c =
     (let n = (of_char c :: nat)
      in (97 \<le> n \<and> n \<le> 122) \<or> (65 \<le> n \<and> n \<le> 90) \<or> (48 \<le> n \<and> n \<le> 57) \<or> n = 95)"

definition nameRegex :: "string \<Rightarrow> bool" where
  "nameRegex s = (s \<noteq> [] \<and> list_all wordChar s)"

text \<open>
  \<^verbatim>\<open>/@(stud\.)?noroff\.no$/\<close>: the string ends with \<^verbatim>\<open>@noroff.no\<close> or with
  \<^verbatim>\<open>@stud.noroff.no\<close>.
\<close>

definition endsWith :: "string \<Rightarrow> string \<Rightarrow> bool" where
  "endsWith s t = (length t \<le> length s \<and> drop (length s - length t) s = t)"

definition emailRegex :: "string \<Rightarrow> bool" where
  "emailRegex s = (endsWith s ''@noroff.no'' \<or> endsWith s ''@stud.noroff.no'')"

text \<open>\<^verbatim>\<open>sendApiRequest(url, method, body)\<close>.\<close>

definition sendApiRequest :: "string \<Rightarrow> string \<Rightarrow> jsval \<Rightarrow> network \<Rightarrow> jsval js" where
  "sendApiRequest url method body net =
     js_bind (fetch \<lparr>req_url = url, req_method = method,
                     req_headers = [(''Content-Type'', ''application/json'')],
                     req_body = Some body\<rparr> net) (\<lambda>response.
     if \<not> ok response then
       js_bind (js_lift (response_json response)) (\<lambda>errorData.
       js_bind (js_lift (js_get errorData ''message'')) (\<lambda>message.
       js_bind (js_lift (js_to_string (js_or message (JStr ''Something went wrong'')))) (\<lambda>text.
       js_throw (Error text))))
     else js_lift (response_json response))"

text \<open>\<^verbatim>\<open>storeToken(token)\<close>; \<^verbatim>\<open>setItem\<close> stores the text of the value.\<close>

definition storeToken :: "jsval \<Rightarrow> unit js" where
  "storeToken token =
     (if truthy token then
        js_bind (js_lift (js_to_string token)) (\<lambda>text. (\<lambda>w.
          (Inr (), w\<lparr>localStorage := (localStorage w)(''jwtToken'' \<mapsto> text)\<rparr>)))
      else js_return ())"

text \<open>\<^verbatim>\<open>clearAuthData()\<close>.\<close>

definition clearAuthData :: "unit js" where
  "clearAuthData w =
     (Inr (), w\<lparr>localStorage := (localStorage w)(''jwtToken'' := None, ''apiKey'' := None)\<rparr>)"

text \<open>
  \<^verbatim>\<open>registerUser(event)\<close>. In the source the closing brace of the function is missing
  after its \<^verbatim>\<open>catch\<close> block; the model reads the function as ending there.
  \<^verbatim>\<open>event.preventDefault()\<close> changes nothing of the world.
\<close>

definition registerUser :: "network \<Rightarrow> unit js" where
  "registerUser net =
     js_bind (getValue ''registerName'') (\<lambda>v1. let name = trim v1 in
     js_bind (getValue ''registerEmail'') (\<lambda>v2. let email = trim v2 in
     js_bind (getValue ''registerPassword'') (\<lambda>v3. let password = trim v3 in
       if name = [] \<or> email = [] \<or> password = [] then
         alert (Text ''All required fields must be filled in.'')
       else if \<not> nameRegex name then
         alert (Text ''The name must only contain letters, numbers, and underscores.'')
       else if \<not> emailRegex email then
         alert (Text ''Please use a valid Noroff email address.'')
       else if length password < 8 then
         alert (Text ''Password must be at least 8 characters long.'')
       else
         js_catch
           (js_bind (sendApiRequest ''https://v2.api.noroff.dev/auth/register'' ''POST''
                       (JObj [(''name'', JStr name), (''email'', JStr email),
                              (''password'', JStr password)]) net) (\<lambda>responseData.
            js_then (alert (Text ''Registration successful! You can now log in.''))
           (js_then (formReset ''registerForm'')
                    (setHref ''login.html''))))
           (\<lambda>error. alert (WithMessage ''Registration failed: '' error)))))"

text \<open>\<^verbatim>\<open>loginUser(event)\<close>.\<close>

definition loginUser :: "network \<Rightarrow> unit js" where
  "loginUser net =
     js_bind (getValue ''loginEmail'') (\<lambda>v1. let email = trim v1 in
     js_bind (getValue ''loginPassword'') (\<lambda>v2. let password = trim v2 in
       if email = [] \<or> password = [] then
         alert (Text ''Please fill in both email and password.'')
       else
         js_catch
           (js_bind (sendApiRequest ''https://v2.api.noroff.dev/auth/login'' ''POST''
                       (JObj [(''email'', JStr email), (''password'', JStr password)]) net)
              (\<lambda>responseData.
            js_bind (js_lift (js_get responseData ''data'')) (\<lambda>d.
            js_bind (if truthy (js_get_opt d ''accessToken'')
                     then js_return (js_get_opt d ''accessToken'')
                     else js_lift (js_get responseData ''accessToken'')) (\<lambda>token.
              if \<not> truthy token then
                alert (Text ''Login failed: No access token returned.'')
              else
                js_then (storeToken token) (setHref ''index.html'')))))
           (\<lambda>error. alert (WithMessage ''Login failed: '' error))))"

text \<open>\<^verbatim>\<open>handleLogout()\<close>.\<close>

definition handleLogout :: "unit js" where
  "handleLogout = js_then clearAuthData (setHref ''login.html'')"

section \<open>post.js\<close>

text \<open>
  The module's variables \<^verbatim>\<open>currentPage\<close> and \<^verbatim>\<open>isLastPage\<close> are used by none of its
  functions, and \<^verbatim>\<open>updateCharCount\<close> writes only the character counter; they are left
  out.
\<close>

text \<open>
  Modelled from the spec: \<^verbatim>\<open>config.js\<close>, which exports \<^verbatim>\<open>getToken\<close> and \<^verbatim>\<open>getApiKey\<close>,
  is not among the sources. The spec's credential store keeps the token and the API key
  in browser-local storage under fixed names, and \<^verbatim>\<open>get()\<close> returns the stored value or
  an absent marker; the names are those \<open>storeToken\<close> writes and \<open>clearAuthData\<close>
  removes.
\<close>

definition getToken :: "world \<Rightarrow> string option" where
  "getToken w = localStorage w ''jwtToken''"

definition getApiKey :: "world \<Rightarrow> string option" where
  "getApiKey w = localStorage w ''apiKey''"

text \<open>
  For a stored value (a string or \<^verbatim>\<open>null\<close>): \<^verbatim>\<open>!x\<close>, its text in a template literal or
  a header, and \<^verbatim>\<open>a || b\<close> on strings.
\<close>

definition absent :: "string option \<Rightarrow> bool" where
  "absent x = (x = None \<or> x = Some [])"

definition show_item :: "string option \<Rightarrow> string" where
  "show_item x = (case x of None \<Rightarrow> ''null'' | Some s \<Rightarrow> s)"

definition str_or :: "string \<Rightarrow> string \<Rightarrow> string" where
  "str_or a b = (if a = [] then b else a)"

definition bindE :: "error + 'a \<Rightarrow> ('a \<Rightarrow> error + 'b) \<Rightarrow> error + 'b" where
  "bindE r f = (case r of Inl e \<Rightarrow> Inl e | Inr x \<Rightarrow> f x)"

text \<open>
  \<^verbatim>\<open>new Date(v)\<close> converts an object or an array to a primitive first, which throws
  exactly when its text does; the model keeps \<open>v\<close> for the date.
\<close>

definition newDate :: "jsval \<Rightarrow> error + jsval" where
  "newDate v = bindE (js_to_string v) (\<lambda>_. Inr v)"

text \<open>
  The body of the \<^verbatim>\<open>forEach\<close> callback of \<open>displayPosts\<close>: the card of one post. The
  click handler reads \<^verbatim>\<open>post.id\<close> when the card is clicked.
\<close>

definition renderCard :: "jsval \<Rightarrow> error + card" where
  "renderCard post =
     bindE (js_get post ''tags'') (\<lambda>tags.
       let location = js_or (js_index_opt tags 1) (JStr ''Unknown'') in
     bindE (js_get post ''_count'') (\<lambda>count.
       let reactionsCount = js_or (js_get_opt count ''reactions'') (JNum 0) in
     bindE (js_get post ''author'') (\<lambda>a.
       let author = js_or (js_get_opt a ''name'') (JStr ''Anonymous'') in
     bindE (js_get post ''media'') (\<lambda>media.
       let imageUrl = js_or (js_get_opt media ''url'') (JStr ''/assets/default-image.png'') in
     bindE (js_get post ''created'') (\<lambda>created.
     bindE (newDate created) (\<lambda>postDate.
     bindE (js_to_string imageUrl) (\<lambda>t1.
     bindE (js_to_string (js_or (js_get_opt media ''alt'') (JStr ''Post Image''))) (\<lambda>t2.
     bindE (js_to_string location) (\<lambda>t3.
     bindE (js_to_string reactionsCount) (\<lambda>t4.
     bindE (js_get post ''title'') (\<lambda>title.
     bindE (js_to_string (js_or title (JStr ''Untitled Post''))) (\<lambda>t5.
     bindE (js_get post ''body'') (\<lambda>body.
     bindE (js_to_string (js_or body (JStr ''No content''))) (\<lambda>t6.
     bindE (js_to_string author) (\<lambda>t7.
     Inr \<lparr>card_image = t1, card_alt = t2, card_location = t3, card_created = postDate,
          card_reactions = t4, card_title = t5, card_body = t6, card_author = t7,
          card_id = js_get_opt post ''id''\<rparr>)))))))))))))))"

text \<open>\<^verbatim>\<open>posts.forEach(...)\<close> on an array: render and append, post by post.\<close>

fun forEachPost :: "jsval list \<Rightarrow> unit js" where
  "forEachPost [] w = (Inr (), w)"
| "forEachPost (post # posts) w =
     (case renderCard post of
        Inl e \<Rightarrow> (Inl e, w)
      | Inr c \<Rightarrow>
          forEachPost posts
            (w\<lparr>postsContainer := map_option (\<lambda>cs. cs @ [c]) (postsContainer w)\<rparr>))"

text \<open>\<^verbatim>\<open>displayPosts(posts, page)\<close>. A value that is no array has no \<^verbatim>\<open>forEach\<close>.\<close>

definition displayPosts :: "jsval \<Rightarrow> int \<Rightarrow> unit js" where
  "displayPosts posts page w =
     (case postsContainer w of
        None \<Rightarrow> (Inr (), w)
      | Some old \<Rightarrow>
          (let w1 = (if page = 1 then w\<lparr>postsContainer := Some []\<rparr> else w)
           in case posts of
                JArr ps \<Rightarrow> forEachPost ps w1
              | _ \<Rightarrow> (Inl TypeError, w1)))"

text \<open>\<^verbatim>\<open>document.getElementById("loadMoreBtn").disabled = true\<close>.\<close>

definition disableLoadMore :: "unit js" where
  "disableLoadMore w =
     (case loadMoreBtn w of
        None \<Rightarrow> (Inl TypeError, w)
      | Some b \<Rightarrow> (Inr (), w\<lparr>loadMoreBtn := Some True\<rparr>))"

text \<open>\<^verbatim>\<open>fetchPosts(page = 1)\<close>.\<close>

definition fetchPosts :: "int \<Rightarrow> network \<Rightarrow> unit js" where
  "fetchPosts page net =
     js_bind (js_gets getToken) (\<lambda>token.
     js_bind (js_gets getApiKey) (\<lambda>apiKey.
     js_bind (js_gets postsContainer) (\<lambda>container.
         if absent token \<or> absent apiKey \<or> container = None then js_return ()
         else
           js_catch
             (js_bind (fetch \<lparr>req_url = ''https://v2.api.noroff.dev/social/posts?limit=12&page=''
                                 @ show_int page @ ''&_tag=petal-parlour&_author=true'',
                               req_method = ''GET'',
                               req_headers = [(''Authorization'', ''Bearer '' @ show_item token),
                                              (''x-Noroff-api-key'', show_item apiKey)],
                               req_body = None\<rparr> net) (\<lambda>response.
              js_bind (if ok response then js_lift (response_json response)
                       else js_throw RejectedResponse) (\<lambda>data.
              js_bind (js_lift (js_get data ''data'')) (\<lambda>posts.
              js_then (displayPosts posts page)
             (js_bind (js_lift (js_get data ''meta'')) (\<lambda>meta.
              js_bind (js_lift (js_get meta ''isLastPage'')) (\<lambda>isLastPage.
              if truthy isLastPage then disableLoadMore else js_return ())))))))
             (\<lambda>error. alert (WithValue ''Error fetching posts: '' error)))))"

text \<open>
  Listeners: adding one that is already there changes nothing; removing takes it out.
\<close>

definition addEventListener :: "string \<Rightarrow> handler \<Rightarrow> unit js" where
  "addEventListener f h w =
     (case forms w f of
        None \<Rightarrow> (Inl TypeError, w)
      | Some hs \<Rightarrow> (Inr (), w\<lparr>forms := (forms w)(f \<mapsto> (if h \<in> set hs then hs else hs @ [h]))\<rparr>))"

definition removeEventListener :: "string \<Rightarrow> handler \<Rightarrow> unit js" where
  "removeEventListener f h w =
     (case forms w f of
        None \<Rightarrow> (Inl TypeError, w)
      | Some hs \<Rightarrow> (Inr (), w\<lparr>forms := (forms w)(f \<mapsto> removeAll h hs)\<rparr>))"

definition setSubmitText :: "string \<Rightarrow> unit js" where
  "setSubmitText t w =
     (case submitButton w of
        None \<Rightarrow> (Inl TypeError, w)
      | Some old \<Rightarrow> (Inr (), w\<lparr>submitButton := Some t\<rparr>))"

text \<open>\<^verbatim>\<open>resetForm()\<close>.\<close>

definition resetForm :: "unit js" where
  "resetForm =
     js_then (formReset ''addPostForm'')
    (js_then (setValue ''postId'' '''')
    (js_then (setSubmitText ''Submit'')
    (js_then (removeEventListener ''addPostForm'' UpdatePost)
             (addEventListener ''addPostForm'' CreatePost))))"

text \<open>
  \<^verbatim>\<open>createPost(event)\<close>. \<^verbatim>\<open>PostManager\<close> and \<^verbatim>\<open>PostRenderer\<close> are globals the module does
  not declare; the model takes them to hold the functions of this module.
  \<^verbatim>\<open>new Date().toISOString()\<close> reads the clock.
\<close>

definition createPost :: "network \<Rightarrow> unit js" where
  "createPost net =
     js_bind (js_gets getToken) (\<lambda>token.
     js_bind (js_gets getApiKey) (\<lambda>apiKey.
         if absent token \<or> absent apiKey then
           alert (Text ''You must be logged in to create a post.'')
         else
           js_bind (getValue ''title'') (\<lambda>v1. let title = str_or v1 ''Untitled Post'' in
           js_bind (getValue ''image'') (\<lambda>v2. let imageUrl = str_or v2 ''/assets/default-post.png'' in
           js_bind (getValue ''location'') (\<lambda>v3. let location = str_or v3 ''Unknown'' in
           js_bind (getValue ''text'') (\<lambda>v4. let text = str_or v4 ''No content'' in
           js_bind (js_gets clock) (\<lambda>postDate.
           js_catch
             (js_bind (fetch \<lparr>req_url = ''https://v2.api.noroff.dev/social/posts'',
                               req_method = ''POST'',
                               req_headers = [(''Authorization'', ''Bearer '' @ show_item token),
                                              (''x-Noroff-api-key'', show_item apiKey),
                                              (''Content-Type'', ''application/json'')],
                               req_body = Some (JObj
                                 [(''title'', JStr title),
                                  (''body'', JStr text),
                                  (''tags'', JArr [JStr ''petal-parlour'', JStr location]),
                                  (''media'', JObj [(''url'', JStr imageUrl), (''alt'', JStr title)]),
                                  (''created'', JStr postDate)])\<rparr> net) (\<lambda>response.
              js_bind (if \<not> ok response then
                         js_bind (js_lift (response_json response)) (\<lambda>data.
                         js_bind (js_lift (js_get data ''message'')) (\<lambda>message.
                         js_bind (js_lift (js_to_string
                                   (js_or message (JStr ''Error creating post.'')))) (\<lambda>t.
                         js_throw (Error t))))
                       else js_lift (response_json response)) (\<lambda>parsed.
              js_then (alert (Text ''Post created successfully!''))
             (js_then resetForm
                      (fetchPosts 1 net)))))
             (\<lambda>error. alert (WithMessage ''Post creation failed: '' error)))))))))"

text \<open>\<^verbatim>\<open>updatePost(event)\<close>.\<close>

definition updatePost :: "network \<Rightarrow> unit js" where
  "updatePost net =
     js_bind (js_gets getToken) (\<lambda>token.
     js_bind (js_gets getApiKey) (\<lambda>apiKey.
         js_bind (getValue ''postId'') (\<lambda>postId.
         if absent token \<or> absent apiKey \<or> postId = [] then
           alert (Text
             ''You must be logged in, have an API key, and a valid post to update.'')
         else
           js_bind (getValue ''image'') (\<lambda>image.
           js_bind (getValue ''location'') (\<lambda>location.
           js_bind (getValue ''text'') (\<lambda>text.
           js_bind (getValue ''title'') (\<lambda>v4. let title = str_or v4 ''Untitled Post'' in
           js_catch
             (js_bind (fetch \<lparr>req_url = ''https://v2.api.noroff.dev/social/posts/'' @ postId,
                               req_method = ''PUT'',
                               req_headers = [(''Authorization'', ''Bearer '' @ show_item token),
                                              (''x-Noroff-api-key'', show_item apiKey),
                                              (''Content-Type'', ''application/json'')],
                               req_body = Some (JObj
                                 [(''title'', JStr title),
                                  (''body'', JStr (str_or text ''No content provided.'')),
                                  (''tags'', JArr [JStr ''petal-parlour'',
                                                   JStr (str_or location ''Unknown'')]),
                                  (''media'', JObj
                                     [(''url'', JStr (str_or image ''/assets/default-post.png'')),
                                      (''alt'', JStr title)])])\<rparr> net) (\<lambda>response.
              js_bind (if \<not> ok response then
                         js_bind (js_lift (response_json response)) (\<lambda>data.
                         js_bind (js_lift (js_get data ''message'')) (\<lambda>message.
                         js_bind (js_lift (js_to_string
                                   (js_or message (JStr ''Error updating post.'')))) (\<lambda>t.
                         js_throw (Error t))))
                       else js_lift (response_json response)) (\<lambda>parsed.
              js_then (alert (Text ''Post updated successfully!''))
             (js_then resetForm
                      (fetchPosts 1 net)))))
             (\<lambda>error. alert (WithMessage ''Post update failed: '' error)))))))))"

text \<open>\<^verbatim>\<open>deletePost(postId)\<close>.\<close>

definition deletePost :: "string \<Rightarrow> network \<Rightarrow> unit js" where
  "deletePost postId net =
     js_bind (js_gets getToken) (\<lambda>token.
     js_bind (js_gets getApiKey) (\<lambda>apiKey.
         js_catch
           (js_bind (fetch \<lparr>req_url = ''https://v2.api.noroff.dev/social/posts/'' @ postId,
                             req_method = ''DELETE'',
                             req_headers = [(''Authorization'', ''Bearer '' @ show_item token),
                                            (''x-Noroff-api-key'', show_item apiKey)],
                             req_body = None\<rparr> net) (\<lambda>response.
            if status response = 204 then
              js_then (alert (Text ''Post deleted successfully!'')) (fetchPosts 1 net)
            else js_throw (Error ''Failed to delete post'')))
           (\<lambda>error. alert (WithMessage ''Error deleting post: '' error))))"

text \<open>
  \<^verbatim>\<open>editPost(postId, title, imageUrl, body, location, postDate)\<close>, with the string
  parameters its documentation declares.
\<close>

definition editPost ::
  "string \<Rightarrow> string \<Rightarrow> string \<Rightarrow> string \<Rightarrow> string \<Rightarrow> string \<Rightarrow> unit js" where
  "editPost postId title imageUrl body location postDate w =
     (if controls w ''title'' \<noteq> None \<and> controls w ''image'' \<noteq> None \<and>
         controls w ''location'' \<noteq> None \<and> controls w ''text'' \<noteq> None \<and>
         controls w ''postId'' \<noteq> None
      then
        (js_then (setValue ''title'' title)
        (js_then (setValue ''image'' (str_or imageUrl ''''))
        (js_then (setValue ''location'' (str_or location ''Unknown''))
        (js_then (setValue ''text'' (str_or body ''No content''))
        (js_then (setValue ''postId'' postId)
        (js_then (\<lambda>w1. if submitButton w1 \<noteq> None then setSubmitText ''Resubmit'' w1
                        else (Inr (), w1))
                 (\<lambda>w2. if forms w2 ''addPostForm'' \<noteq> None then
                          js_then (removeEventListener ''addPostForm'' CreatePost)
                                  (addEventListener ''addPostForm'' UpdatePost) w2
                        else (Inr (), w2)))))))) w
      else (Inr (), w))"

text \<open>\<^verbatim>\<open>displaySinglePost(post)\<close>: the document title, then the detail view.\<close>

definition renderDetail :: "jsval \<Rightarrow> error + detail" where
  "renderDetail post =
     bindE (js_get post ''media'') (\<lambda>media.
     bindE (js_to_string
              (js_or (js_get_opt media ''url'') (JStr ''/assets/default-image.png''))) (\<lambda>t1.
     bindE (js_to_string (js_or (js_get_opt media ''alt'') (JStr ''Post Image''))) (\<lambda>t2.
     bindE (js_get post ''tags'') (\<lambda>tags.
     bindE (js_to_string (js_or (js_index_opt tags 1) (JStr ''Unknown''))) (\<lambda>t3.
     bindE (js_get post ''created'') (\<lambda>created.
     bindE (newDate created) (\<lambda>postDate.
     bindE (js_get post ''_count'') (\<lambda>count.
     bindE (js_to_string (js_or (js_get_opt count ''reactions'') (JNum 0))) (\<lambda>t4.
     bindE (js_get post ''title'') (\<lambda>title.
     bindE (js_to_string (js_or title (JStr ''Untitled Post''))) (\<lambda>t5.
     bindE (js_get post ''body'') (\<lambda>body.
     bindE (js_to_string (js_or body (JStr ''No content''))) (\<lambda>t6.
     bindE (js_get post ''author'') (\<lambda>a.
     bindE (js_to_string (js_or (js_get_opt a ''name'') (JStr ''Anonymous''))) (\<lambda>t7.
     Inr \<lparr>detail_image = t1, detail_alt = t2, detail_location = t3,
          detail_created = postDate, detail_reactions = t4, detail_title = t5,
          detail_body = t6, detail_author = t7\<rparr>)))))))))))))))"

definition displaySinglePost :: "jsval \<Rightarrow> unit js" where
  "displaySinglePost post w =
     (case postDetails w of
        None \<Rightarrow> (Inr (), w)
      | Some old \<Rightarrow>
          js_bind (js_lift (bindE (js_get post ''author'') (\<lambda>a.
                     js_to_string (js_or (js_get_opt a ''name'') (JStr ''Anonymous''))))) (\<lambda>name.
          js_then (\<lambda>w1. (Inr (), w1\<lparr>docTitle := name @ [CHR 0x27] @ ''s Post''\<rparr>))
         (js_bind (js_lift (renderDetail post)) (\<lambda>d.
          (\<lambda>w2. (Inr (), w2\<lparr>postDetails := Some [d]\<rparr>))))) w)"

text \<open>\<^verbatim>\<open>fetchSinglePost(postId)\<close>.\<close>

definition fetchSinglePost :: "string \<Rightarrow> network \<Rightarrow> unit js" where
  "fetchSinglePost postId net =
     js_bind (js_gets getToken) (\<lambda>token.
     js_bind (js_gets getApiKey) (\<lambda>apiKey.
         if absent token \<or> absent apiKey then js_return ()
         else
           js_catch
             (js_bind (fetch \<lparr>req_url = ''https://v2.api.noroff.dev/social/posts/'' @ postId
                                 @ ''?_author=true&_comments=true'',
                               req_method = ''GET'',
                               req_headers = [(''Authorization'', ''Bearer '' @ show_item token),
                                              (''x-Noroff-api-key'', show_item apiKey)],
                               req_body = None\<rparr> net) (\<lambda>response.
              js_bind (if \<not> ok response then js_throw RejectedResponse
                       else js_lift (response_json response)) (\<lambda>postData.
              js_bind (js_lift (js_get postData ''data'')) (\<lambda>post.
              displaySinglePost post))))
             (\<lambda>error. alert (WithMessage ''Error fetching post details: '' error))))"

section \<open>The vocabulary of the claims\<close>

text \<open>
  The cards one run of \<^verbatim>\<open>forEach\<close> appends: those of the posts before the first one
  whose rendering throws (all of them when none does).
\<close>

fun renderedCards :: "jsval list \<Rightarrow> card list" where
  "renderedCards [] = []"
| "renderedCards (post # posts) =
     (case renderCard post of Inl e \<Rightarrow> [] | Inr c \<Rightarrow> c # renderedCards posts)"

text \<open>
  The Post record of the spec's data model, as a predicate on JSON values: an object
  whose \<^verbatim>\<open>title\<close>, \<^verbatim>\<open>body\<close> and \<^verbatim>\<open>created\<close> are strings, whose \<^verbatim>\<open>media\<close> is an object
  with strings \<^verbatim>\<open>url\<close> and \<^verbatim>\<open>alt\<close>, whose \<^verbatim>\<open>tags\<close> is an array of strings, whose
  \<^verbatim>\<open>author\<close> is an object with a string \<^verbatim>\<open>name\<close>, and whose \<^verbatim>\<open>_count\<close> is an object with a
  number \<^verbatim>\<open>reactions\<close> that is not negative; each of these may be missing (absent or
  \<^verbatim>\<open>null\<close>).
\<close>

definition missing :: "jsval \<Rightarrow> bool" where
  "missing v = (v = JUndefined \<or> v = JNull)"

definition optText :: "jsval \<Rightarrow> bool" where
  "optText v = (case v of JUndefined \<Rightarrow> True | JNull \<Rightarrow> True | JStr s \<Rightarrow> True | _ \<Rightarrow> False)"

definition optCount :: "jsval \<Rightarrow> bool" where
  "optCount v = (case v of JUndefined \<Rightarrow> True | JNull \<Rightarrow> True | JNum n \<Rightarrow> 0 \<le> n | _ \<Rightarrow> False)"

definition isText :: "jsval \<Rightarrow> bool" where
  "isText v = (case v of JStr s \<Rightarrow> True | _ \<Rightarrow> False)"

definition isPost :: "jsval \<Rightarrow> bool" where
  "isPost p =
     (case p of
        JObj kvs \<Rightarrow>
          optText (js_get_opt p ''title'') \<and>
          optText (js_get_opt p ''body'') \<and>
          optText (js_get_opt p ''created'') \<and>
          (case js_get_opt p ''media'' of
             JUndefined \<Rightarrow> True | JNull \<Rightarrow> True
           | JObj m \<Rightarrow> optText (js_get_opt (JObj m) ''url'') \<and> optText (js_get_opt (JObj m) ''alt'')
           | _ \<Rightarrow> False) \<and>
          (case js_get_opt p ''tags'' of
             JUndefined \<Rightarrow> True | JNull \<Rightarrow> True
           | JArr ts \<Rightarrow> list_all isText ts
           | _ \<Rightarrow> False) \<and>
          (case js_get_opt p ''author'' of
             JUndefined \<Rightarrow> True | JNull \<Rightarrow> True
           | JObj a \<Rightarrow> optText (js_get_opt (JObj a) ''name'')
           | _ \<Rightarrow> False) \<and>
          (case js_get_opt p ''_count'' of
             JUndefined \<Rightarrow> True | JNull \<Rightarrow> True
           | JObj c \<Rightarrow> optCount (js_get_opt (JObj c) ''reactions'')
           | _ \<Rightarrow> False)
      | _ \<Rightarrow> False)"

text \<open>A post the card renderer renders without throwing.\<close>

definition renders :: "jsval \<Rightarrow> bool" where
  "renders p = (case renderCard p of Inl e \<Rightarrow> False | Inr c \<Rightarrow> True)"

text \<open>
  The parameters of a URL's query string: the part after the first \<open>?\<close>, split at
  every \<open>&\<close>, each piece split at its first \<open>=\<close>.
\<close>

fun splitOn :: "char \<Rightarrow> string \<Rightarrow> string list" where
  "splitOn c [] = [[]]"
| "splitOn c (x # xs) =
     (if x = c then [] # splitOn c xs
      else (case splitOn c xs of [] \<Rightarrow> [[x]] | y # ys \<Rightarrow> (x # y) # ys))"

definition beforeChar :: "char \<Rightarrow> string \<Rightarrow> string" where
  "beforeChar c s = takeWhile (\<lambda>x. x \<noteq> c) s"

definition afterChar :: "char \<Rightarrow> string \<Rightarrow> string" where
  "afterChar c s = drop 1 (dropWhile (\<lambda>x. x \<noteq> c) s)"

definition queryParam :: "string \<Rightarrow> string \<Rightarrow> string option" where
  "queryParam url k =
     map_of (map (\<lambda>p. (beforeChar CHR ''='' p, afterChar CHR ''='' p))
               (splitOn CHR ''&'' (afterChar CHR ''?'' url))) k"

text \<open>
  The tag filter of the spec's glossary: a fixed label the server uses to scope which
  posts belong to a feed. \<open>inFeed url post\<close>: the post, as a request body carries it,
  is in the scope of the query \<open>url\<close>, whose \<^verbatim>\<open>_tag\<close> (if it has one) is among the
  post's tags.
\<close>

definition inFeed :: "string \<Rightarrow> jsval \<Rightarrow> bool" where
  "inFeed url post =
     (case queryParam url ''_tag'' of
        None \<Rightarrow> True
      | Some t \<Rightarrow> (case js_get_opt post ''tags'' of JArr ts \<Rightarrow> JStr t \<in> set ts | _ \<Rightarrow> False))"

text \<open>
  \<open>sends P m w\<close>: run from the world \<open>w\<close>, the piece of program \<open>m\<close> keeps the
  requests issued before it and adds only requests that satisfy \<open>P\<close>.
\<close>

definition sends :: "(request \<Rightarrow> bool) \<Rightarrow> 'a js \<Rightarrow> world \<Rightarrow> bool" where
  "sends P m w = (\<exists>rs. requests (snd (m w)) = requests w @ rs \<and> list_all P rs)"

section \<open>Concrete servers and pages\<close>

text \<open>
  The inputs of the examples: a server that answers every request with the same
  response, and pages holding the elements a script looks up.
\<close>

definition always :: "response \<Rightarrow> network" where
  "always r = (\<lambda>q. Responded r)"

definition blankPage :: world where
  "blankPage =
     \<lparr>localStorage = Map.empty, href = ''login.html'', clock = ''2024-09-29T10:00:00.000Z'',
      alerts = [], requests = [], controls = Map.empty, forms = Map.empty,
      submitButton = None, postsContainer = None, loadMoreBtn = None, postDetails = None,
      docTitle = ''''\<rparr>"

definition field :: "string \<Rightarrow> control" where
  "field v = \<lparr>val = v, dflt = '''', owner = None\<rparr>"

definition registerPage :: "string \<Rightarrow> string \<Rightarrow> string \<Rightarrow> world" where
  "registerPage n e p =
     blankPage\<lparr>controls := [''registerName'' \<mapsto> field n, ''registerEmail'' \<mapsto> field e,
                              ''registerPassword'' \<mapsto> field p],
               forms := [''registerForm'' \<mapsto> []]\<rparr>"

definition loginPage :: "string \<Rightarrow> string \<Rightarrow> world" where
  "loginPage e p =
     blankPage\<lparr>controls := [''loginEmail'' \<mapsto> field e, ''loginPassword'' \<mapsto> field p]\<rparr>"

definition emailTaken :: response where
  "emailTaken = \<lparr>status = 400, json = Some (JObj [(''message'', JStr ''Email taken'')])\<rparr>"

definition badGateway :: response where
  "badGateway = \<lparr>status = 502, json = None\<rparr>"

definition noTokenBody :: jsval where
  "noTokenBody = JObj [(''data'', JObj [(''name'', JStr ''kari''), (''email'', JStr ''kari@stud.noroff.no'')]),
                       (''meta'', JObj [])]"

definition formField :: "string \<Rightarrow> control" where
  "formField v = \<lparr>val = v, dflt = '''', owner = Some ''addPostForm''\<rparr>"

definition feedPage :: world where
  "feedPage =
     \<lparr>localStorage = [''jwtToken'' \<mapsto> ''tok'', ''apiKey'' \<mapsto> ''key''],
      href = ''index.html'', clock = ''2024-09-29T10:00:00.000Z'',
      alerts = [], requests = [],
      controls = [''title'' \<mapsto> formField '''', ''image'' \<mapsto> formField '''',
                  ''location'' \<mapsto> formField '''', ''text'' \<mapsto> formField '''',
                  ''postId'' \<mapsto> formField ''''],
      forms = [''addPostForm'' \<mapsto> [CreatePost]],
      submitButton = Some ''Submit'', postsContainer = Some [], loadMoreBtn = Some False,
      postDetails = None, docTitle = ''Petal Parlour''\<rparr>"

definition peonyPost :: jsval where
  "peonyPost =
     JObj [(''id'', JNum 7), (''title'', JStr ''Peony''), (''body'', JStr ''In bloom''),
           (''tags'', JArr [JStr ''petal-parlour'', JStr ''Oslo'']),
           (''media'', JObj [(''url'', JStr ''https://img.example/peony.png''),
                             (''alt'', JStr ''A peony'')]),
           (''created'', JStr ''2024-09-29T10:00:00.000Z''),
           (''author'', JObj [(''name'', JStr ''kari'')]),
           (''_count'', JObj [(''reactions'', JNum 3)])]"

definition peonyCard :: card where
  "peonyCard =
     \<lparr>card_image = ''https://img.example/peony.png'', card_alt = ''A peony'',
      card_location = ''Oslo'', card_created = JStr ''2024-09-29T10:00:00.000Z'',
      card_reactions = ''3'', card_title = ''Peony'', card_body = ''In bloom'',
      card_author = ''kari'', card_id = JNum 7\<rparr>"

definition barePost :: jsval where
  "barePost =
     JObj [(''id'', JNum 8), (''title'', JStr ''Untagged''), (''media'', JNull),
           (''tags'', JArr [JStr ''petal-parlour''])]"

definition bareCard :: card where
  "bareCard =
     \<lparr>card_image = ''/assets/default-image.png'', card_alt = ''Post Image'',
      card_location = ''Unknown'', card_created = JUndefined,
      card_reactions = ''0'', card_title = ''Untagged'', card_body = ''No content'',
      card_author = ''Anonymous'', card_id = JNum 8\<rparr>"

definition rosePost :: jsval where
  "rosePost =
     JObj [(''id'', JNum 9), (''title'', JStr ''Rose''), (''media'', JNull),
           (''tags'', JArr [JStr ''petal-parlour'', JStr ''Bergen'']),
           (''author'', JObj [(''name'', JStr ''kari'')]),
           (''_count'', JObj [(''reactions'', JNum 2)])]"

definition roseCard :: card where
  "roseCard =
     \<lparr>card_image = ''/assets/default-image.png'', card_alt = ''Post Image'',
      card_location = ''Bergen'', card_created = JUndefined,
      card_reactions = ''2'', card_title = ''Rose'', card_body = ''No content'',
      card_author = ''kari'', card_id = JNum 9\<rparr>"

definition roseDetail :: detail where
  "roseDetail =
     \<lparr>detail_image = ''/assets/default-image.png'', detail_alt = ''Post Image'',
      detail_location = ''Bergen'', detail_created = JUndefined,
      detail_reactions = ''2'', detail_title = ''Rose'', detail_body = ''No content'',
      detail_author = ''kari''\<rparr>"

definition postPage :: world where
  "postPage = blankPage\<lparr>href := ''post.html?id=9'', postDetails := Some []\<rparr>"

definition lastPage :: response where
  "lastPage =
     \<lparr>status = 200,
      json = Some (JObj [(''data'', JArr [peonyPost]),
                         (''meta'', JObj [(''isLastPage'', JBool True)])])\<rparr>"

definition morePages :: response where
  "morePages =
     \<lparr>status = 200,
      json = Some (JObj [(''data'', JArr [peonyPost, barePost]),
                         (''meta'', JObj [(''isLastPage'', JBool False)])])\<rparr>"

definition editingPage :: world where
  "editingPage =
     snd (editPost ''7'' ''Peony'' ''https://img.example/peony.png'' ''In bloom'' ''Oslo''
            ''2024-09-29T10:00:00.000Z'' feedPage)"

definition signedOutPage :: world where
  "signedOutPage = feedPage\<lparr>localStorage := Map.empty\<rparr>"

definition updated :: response where
  "updated = \<lparr>status = 200, json = Some (JObj [(''data'', peonyPost), (''meta'', JObj [])])\<rparr>"

definition notFound :: response where
  "notFound = \<lparr>status = 404, json = Some (JObj [(''message'', JStr ''No post with this id'')])\<rparr>"

definition composePage :: world where
  "composePage =
     feedPage\<lparr>controls := [''title'' \<mapsto> formField ''Peony'', ''image'' \<mapsto> formField '''',
                             ''location'' \<mapsto> formField ''Oslo'', ''text'' \<mapsto> formField ''In bloom'',
                             ''postId'' \<mapsto> formField '''']\<rparr>"

definition createBody :: jsval where
  "createBody =
     JObj [(''title'', JStr ''Peony''), (''body'', JStr ''In bloom''),
           (''tags'', JArr [JStr ''petal-parlour'', JStr ''Oslo'']),
           (''media'', JObj [(''url'', JStr ''/assets/default-post.png''), (''alt'', JStr ''Peony'')]),
           (''created'', JStr ''2024-09-29T10:00:00.000Z'')]"

definition createRequest :: request where
  "createRequest =
     \<lparr>req_url = ''https://v2.api.noroff.dev/social/posts'', req_method = ''POST'',
      req_headers = [(''Authorization'', ''Bearer tok''), (''x-Noroff-api-key'', ''key''),
                     (''Content-Type'', ''application/json'')],
      req_body = Some createBody\<rparr>"

definition updateBody :: jsval where
  "updateBody =
     JObj [(''title'', JStr ''Peony''), (''body'', JStr ''In bloom''),
           (''tags'', JArr [JStr ''petal-parlour'', JStr ''Oslo'']),
           (''media'', JObj [(''url'', JStr ''https://img.example/peony.png''),
                             (''alt'', JStr ''Peony'')])]"

definition updateRequest :: request where
  "updateRequest =
     \<lparr>req_url = ''https://v2.api.noroff.dev/social/posts/7'', req_method = ''PUT'',
      req_headers = [(''Authorization'', ''Bearer tok''), (''x-Noroff-api-key'', ''key''),
                     (''Content-Type'', ''application/json'')],
      req_body = Some updateBody\<rparr>"

definition feedRequest :: request where
  "feedRequest =
     \<lparr>req_url = ''https://v2.api.noroff.dev/social/posts?limit=12&page=2&_tag=petal-parlour&_author=true'',
      req_method = ''GET'',
      req_headers = [(''Authorization'', ''Bearer tok''), (''x-Noroff-api-key'', ''key'')],
      req_body = None\<rparr>"

section \<open>Auxiliary facts\<close>

lemmas js_defs = js_return_def js_throw_def js_lift_def js_gets_def js_bind_def js_then_def js_catch_def
  getValue_def setValue_def formReset_def alert_def setHref_def fetch_def response_json_def

lemma js_get_total:
  "d \<noteq> JNull \<Longrightarrow> d \<noteq> JUndefined \<Longrightarrow> js_get d k = Inr (js_get_opt d k)"
  by (cases d) simp_all

text \<open>What \<open>sendApiRequest\<close> returns and leaves, by the server's answer.\<close>

lemma sendApiRequest_result:
  "sendApiRequest url method body net w =
     (case net \<lparr>req_url = url, req_method = method,
                 req_headers = [(''Content-Type'', ''application/json'')],
                 req_body = Some body\<rparr> of
        NetworkFailure \<Rightarrow> Inl TypeError
      | Responded r \<Rightarrow>
          if ok r then response_json r
          else (case json r of
                  None \<Rightarrow> Inl SyntaxError
                | Some d \<Rightarrow>
                    (case js_get d ''message'' of
                       Inl e \<Rightarrow> Inl e
                     | Inr m \<Rightarrow>
                         (case js_to_string (js_or m (JStr ''Something went wrong'')) of
                            Inl e \<Rightarrow> Inl e
                          | Inr s \<Rightarrow> Inl (Error s)))),
      w\<lparr>requests := requests w @
         [\<lparr>req_url = url, req_method = method,
           req_headers = [(''Content-Type'', ''application/json'')],
           req_body = Some body\<rparr>]\<rparr>)"
  by (simp add: sendApiRequest_def js_defs Let_def
           split: fetched.splits option.splits sum.splits)

lemma forEachPost_container:
  "postsContainer w = Some cs \<Longrightarrow>
   snd (forEachPost ps w) = w\<lparr>postsContainer := Some (cs @ renderedCards ps)\<rparr>"
proof (induction ps arbitrary: w cs)
  case Nil
  then show ?case by simp
next
  case (Cons p ps)
  show ?case
  proof (cases "renderCard p")
    case (Inl e)
    with Cons.prems show ?thesis by simp
  next
    case (Inr c)
    have "postsContainer (w\<lparr>postsContainer := map_option (\<lambda>cs. cs @ [c]) (postsContainer w)\<rparr>)
            = Some (cs @ [c])"
      using Cons.prems by simp
    from Cons.IH [OF this] Inr Cons.prems show ?thesis by simp
  qed
qed

lemma text_or_default:
  assumes "optText v"
  shows "\<exists>s. js_to_string (js_or v (JStr d)) = Inr s \<and>
             (missing v \<or> v = JStr [] \<longrightarrow> s = d) \<and>
             (\<forall>t. v = JStr t \<longrightarrow> t \<noteq> [] \<longrightarrow> s = t)"
  using assms by (cases v) (auto simp: optText_def js_or_def missing_def)

lemma count_or_default:
  assumes "optCount v"
  shows "\<exists>s. js_to_string (js_or v (JNum 0)) = Inr s \<and>
             (missing v \<longrightarrow> s = ''0'') \<and> (\<forall>n. v = JNum n \<longrightarrow> s = show_int n)"
  using assms
  by (cases v) (auto simp: optCount_def js_or_def missing_def show_int_def show_nat.simps)

lemma isPost_get: "isPost p \<Longrightarrow> js_get p k = Inr (js_get_opt p k)"
  by (cases p) (simp_all add: isPost_def)

lemma isPost_fields:
  assumes "isPost p"
  shows "optText (js_get_opt p ''title'')"
    and "optText (js_get_opt p ''body'')"
    and "optText (js_get_opt p ''created'')"
    and "optText (js_get_opt (js_get_opt p ''media'') ''url'')"
    and "optText (js_get_opt (js_get_opt p ''media'') ''alt'')"
    and "optText (js_index_opt (js_get_opt p ''tags'') i)"
    and "optText (js_get_opt (js_get_opt p ''author'') ''name'')"
    and "optCount (js_get_opt (js_get_opt p ''_count'') ''reactions'')"
proof -
  obtain kvs where p: "p = JObj kvs"
    using assms by (cases p) (simp_all add: isPost_def)
  show "optText (js_get_opt p ''title'')" "optText (js_get_opt p ''body'')"
       "optText (js_get_opt p ''created'')"
    using assms unfolding p by (simp_all add: isPost_def)
  show "optText (js_get_opt (js_get_opt p ''media'') ''url'')"
       "optText (js_get_opt (js_get_opt p ''media'') ''alt'')"
    using assms unfolding p
    by (cases "js_get_opt (JObj kvs) ''media''"; simp add: isPost_def optText_def)+
  show "optText (js_get_opt (js_get_opt p ''author'') ''name'')"
    using assms unfolding p
    by (cases "js_get_opt (JObj kvs) ''author''"; simp add: isPost_def optText_def)
  show "optCount (js_get_opt (js_get_opt p ''_count'') ''reactions'')"
    using assms unfolding p
    by (cases "js_get_opt (JObj kvs) ''_count''"; simp add: isPost_def optCount_def)
  show "optText (js_index_opt (js_get_opt p ''tags'') i)"
  proof (cases "js_get_opt p ''tags''")
    case (JArr ts)
    then have "list_all isText ts"
      using assms unfolding p by (simp add: isPost_def)
    then have "i < length ts \<Longrightarrow> isText (ts ! i)"
      by (simp add: list_all_length)
    then show ?thesis
      unfolding JArr by (cases "ts ! i") (auto simp: optText_def isText_def)
  qed (use assms in \<open>simp_all add: p isPost_def optText_def\<close>)
qed

lemma date_of_text: "optText v \<Longrightarrow> newDate v = Inr v"
  by (cases v) (simp_all add: optText_def newDate_def bindE_def)

lemma renderCard_peonyPost: "renderCard peonyPost = Inr peonyCard"
  by (simp add: renderCard_def peonyPost_def peonyCard_def bindE_def js_or_def newDate_def
        show_int_def show_nat.simps)

lemma renderCard_barePost: "renderCard barePost = Inr bareCard"
  by (simp add: renderCard_def barePost_def bareCard_def bindE_def js_or_def newDate_def
        show_int_def show_nat.simps)

lemma renderCard_rosePost: "renderCard rosePost = Inr roseCard"
  by (simp add: renderCard_def rosePost_def roseCard_def bindE_def js_or_def newDate_def
        show_int_def show_nat.simps)

lemma renderDetail_rosePost: "renderDetail rosePost = Inr roseDetail"
  by (simp add: renderDetail_def rosePost_def roseDetail_def bindE_def js_or_def newDate_def
        show_int_def show_nat.simps)

lemma forEachPost_ok: "list_all renders ps \<Longrightarrow> fst (forEachPost ps w) = Inr ()"
  by (induction ps arbitrary: w) (auto simp: renders_def split: sum.splits)

lemma forEachPost_frame:
  "forEachPost ps w = (r, w') \<Longrightarrow> \<exists>c. w' = w\<lparr>postsContainer := c\<rparr>"
proof (induction ps arbitrary: w)
  case Nil
  then have "w' = w\<lparr>postsContainer := postsContainer w\<rparr>" by simp
  then show ?case by blast
next
  case (Cons p ps)
  show ?case
  proof (cases "renderCard p")
    case (Inl e)
    with Cons.prems have "w' = w\<lparr>postsContainer := postsContainer w\<rparr>" by simp
    then show ?thesis by blast
  next
    case (Inr c)
    with Cons.prems Cons.IH [of "w\<lparr>postsContainer := map_option (\<lambda>cs. cs @ [c]) (postsContainer w)\<rparr>"]
    obtain c' where "w' = w\<lparr>postsContainer := map_option (\<lambda>cs. cs @ [c]) (postsContainer w)\<rparr>
                           \<lparr>postsContainer := c'\<rparr>"
      by auto
    then have "w' = w\<lparr>postsContainer := c'\<rparr>" by simp
    then show ?thesis by blast
  qed
qed

lemma displayPosts_frame:
  "displayPosts posts page w = (r, w') \<Longrightarrow> \<exists>c. w' = w\<lparr>postsContainer := c\<rparr>"
proof (cases "postsContainer w")
  case None
  assume "displayPosts posts page w = (r, w')"
  with None have "w' = w\<lparr>postsContainer := postsContainer w\<rparr>"
    by (simp add: displayPosts_def)
  then show ?thesis by blast
next
  case (Some old)
  assume a: "displayPosts posts page w = (r, w')"
  let ?w1 = "if page = 1 then w\<lparr>postsContainer := Some []\<rparr> else w"
  have w1: "\<exists>c. ?w1 = w\<lparr>postsContainer := c\<rparr>"
    by (cases "page = 1") (auto intro: exI [of _ "postsContainer w"])
  show ?thesis
  proof (cases "\<exists>ps. posts = JArr ps")
    case True
    then obtain ps where ps: "posts = JArr ps" by blast
    from a Some have "forEachPost ps ?w1 = (r, w')"
      by (simp add: displayPosts_def ps Let_def)
    from forEachPost_frame [OF this] obtain c where c: "w' = ?w1\<lparr>postsContainer := c\<rparr>"
      by blast
    from w1 obtain c0 where "?w1 = w\<lparr>postsContainer := c0\<rparr>" by blast
    with c have "w' = w\<lparr>postsContainer := c0\<rparr>\<lparr>postsContainer := c\<rparr>" by simp
    then have "w' = w\<lparr>postsContainer := c\<rparr>" by simp
    then show ?thesis by blast
  next
    case False
    with a Some have "w' = ?w1"
      by (cases posts) (simp_all add: displayPosts_def Let_def)
    with w1 show ?thesis by simp
  qed
qed

lemma displayPosts_ok:
  assumes "list_all renders ps"
  shows "\<exists>c. displayPosts (JArr ps) page w = (Inr (), w\<lparr>postsContainer := c\<rparr>)"
proof -
  obtain r w' where d: "displayPosts (JArr ps) page w = (r, w')"
    by (cases "displayPosts (JArr ps) page w") blast
  from displayPosts_frame [OF d] obtain c where c: "w' = w\<lparr>postsContainer := c\<rparr>"
    by blast
  have "fst (displayPosts (JArr ps) page w) = Inr ()"
    using assms by (simp add: displayPosts_def forEachPost_ok Let_def split: option.splits)
  with d have "r = Inr ()" by simp
  with d c have "displayPosts (JArr ps) page w = (Inr (), w\<lparr>postsContainer := c\<rparr>)"
    by simp
  then show ?thesis by blast
qed

lemma fetchPosts_returns: "fst (fetchPosts page net w) = Inr ()"
  by (auto simp: fetchPosts_def js_defs Let_def disableLoadMore_def
           split: fetched.splits option.splits sum.splits prod.splits if_splits)

lemma fetchPosts_forms: "forms (snd (fetchPosts page net w)) = forms w"
  by (auto simp: fetchPosts_def js_defs Let_def disableLoadMore_def
           split: fetched.splits option.splits sum.splits prod.splits if_splits
           dest!: displayPosts_frame)

lemma fetchPosts_requests:
  "requests (snd (fetchPosts page net w)) =
     requests w @
       (if absent (getToken w) \<or> absent (getApiKey w) \<or> postsContainer w = None then []
        else [\<lparr>req_url = ''https://v2.api.noroff.dev/social/posts?limit=12&page=''
                          @ show_int page @ ''&_tag=petal-parlour&_author=true'',
                req_method = ''GET'',
                req_headers = [(''Authorization'', ''Bearer '' @ show_item (getToken w)),
                               (''x-Noroff-api-key'', show_item (getApiKey w))],
                req_body = None\<rparr>])"
  by (auto simp: fetchPosts_def js_defs Let_def disableLoadMore_def
           split: fetched.splits option.splits sum.splits prod.splits if_splits
           dest!: displayPosts_frame)

lemma renders_examples: "renders peonyPost" "renders barePost"
  by (simp_all add: renders_def renderCard_peonyPost renderCard_barePost)

lemma feedPage_ready:
  "\<not> absent (getToken feedPage)" "\<not> absent (getApiKey feedPage)"
  "postsContainer feedPage = Some []" "loadMoreBtn feedPage = Some False"
  by (simp_all add: feedPage_def absent_def getToken_def getApiKey_def)

lemma fetchPosts_lastPage:
  "snd (fetchPosts 1 (always lastPage) feedPage) =
     feedPage\<lparr>requests :=
        [\<lparr>req_url = ''https://v2.api.noroff.dev/social/posts?limit=12&page=1&_tag=petal-parlour&_author=true'',
          req_method = ''GET'',
          req_headers = [(''Authorization'', ''Bearer tok''), (''x-Noroff-api-key'', ''key'')],
          req_body = None\<rparr>],
        postsContainer := Some [peonyCard], loadMoreBtn := Some True\<rparr>"
  by (simp add: fetchPosts_def js_defs Let_def disableLoadMore_def always_def lastPage_def ok_def
        feedPage_def absent_def getToken_def getApiKey_def displayPosts_def
        renderCard_peonyPost show_int_def show_nat.simps show_item_def)

lemmas form_defs = resetForm_def addEventListener_def removeEventListener_def
  setSubmitText_def

lemma js_catch_bind:
  "js_catch (js_bind m f) h w =
     (case m w of (Inl e, w') \<Rightarrow> h e w' | (Inr x, w') \<Rightarrow> js_catch (f x) h w')"
  by (simp add: js_catch_def js_bind_def split: prod.splits sum.splits)

lemma js_catch_fetchPosts: "js_catch (fetchPosts page net) h w = fetchPosts page net w"
  using fetchPosts_returns [of page net w]
  by (cases "fetchPosts page net w") (simp add: js_catch_def)

lemmas js_steps = js_return_def js_throw_def js_lift_def js_gets_def js_bind_def js_then_def
  getValue_def setValue_def formReset_def alert_def setHref_def fetch_def response_json_def
  js_catch_bind js_catch_fetchPosts

lemma updatePost_success:
  assumes "\<not> absent (getToken w)" and "\<not> absent (getApiKey w)"
      and "controls w ''postId'' = Some c" and "val c \<noteq> []"
      and "controls w ''title'' \<noteq> None" and "controls w ''image'' \<noteq> None"
      and "controls w ''location'' \<noteq> None" and "controls w ''text'' \<noteq> None"
      and "submitButton w \<noteq> None" and "forms w ''addPostForm'' = Some hs"
      and "\<forall>q. req_method q = ''PUT'' \<longrightarrow> net q = Responded r"
      and "ok r" and "json r \<noteq> None"
  shows "forms (snd (updatePost net w)) ''addPostForm''
           = Some (if CreatePost \<in> set (removeAll UpdatePost hs) then removeAll UpdatePost hs
                   else removeAll UpdatePost hs @ [CreatePost])"
  using assms
  by (clarsimp simp: updatePost_def js_steps form_defs Let_def fetchPosts_forms)

lemma updatePost_failure:
  assumes "\<forall>q. req_method q = ''PUT'' \<longrightarrow> net q = Responded r" and "\<not> ok r"
  shows "forms (snd (updatePost net w)) = forms w"
  using assms
  by (auto simp: updatePost_def js_defs Let_def
           split: prod.splits sum.splits option.splits)

lemma editPost_forms:
  assumes "controls w ''title'' \<noteq> None" and "controls w ''image'' \<noteq> None"
      and "controls w ''location'' \<noteq> None" and "controls w ''text'' \<noteq> None"
      and "controls w ''postId'' \<noteq> None" and "forms w ''addPostForm'' = Some hs"
  shows "forms (snd (editPost postId title imageUrl body location postDate w)) ''addPostForm''
           = Some (if UpdatePost \<in> set (removeAll CreatePost hs) then removeAll CreatePost hs
                   else removeAll CreatePost hs @ [UpdatePost])"
  using assms
  by (clarsimp simp: editPost_def js_defs form_defs)

lemma editingPage_facts:
  "getToken editingPage = Some ''tok''" "getApiKey editingPage = Some ''key''"
  "controls editingPage ''postId'' = Some (formField ''7'')"
  "controls editingPage ''title'' = Some (formField ''Peony'')"
  "controls editingPage ''image'' = Some (formField ''https://img.example/peony.png'')"
  "controls editingPage ''location'' = Some (formField ''Oslo'')"
  "controls editingPage ''text'' = Some (formField ''In bloom'')"
  "submitButton editingPage = Some ''Resubmit''"
  "forms editingPage ''addPostForm'' = Some [UpdatePost]"
  by (simp_all add: editingPage_def editPost_def js_defs form_defs feedPage_def
        getToken_def getApiKey_def formField_def str_or_def)

lemma sends_same: "requests (snd (m w)) = requests w \<Longrightarrow> sends P m w"
  by (simp add: sends_def)

lemma sends_bind:
  assumes "sends P m w" and "\<And>x w'. sends P (f x) w'"
  shows "sends P (js_bind m f) w"
proof -
  from assms(1) obtain rs where rs: "requests (snd (m w)) = requests w @ rs" "list_all P rs"
    by (auto simp: sends_def)
  show ?thesis
  proof (cases "m w")
    case (Pair r w1)
    show ?thesis
    proof (cases r)
      case (Inl e)
      with Pair rs show ?thesis by (auto simp: sends_def js_bind_def)
    next
      case (Inr x)
      from assms(2) [of x w1] obtain rs' where
        "requests (snd (f x w1)) = requests w1 @ rs'" "list_all P rs'"
        by (auto simp: sends_def)
      with Pair Inr rs show ?thesis by (auto simp: sends_def js_bind_def)
    qed
  qed
qed

lemma sends_then:
  "sends P m w \<Longrightarrow> (\<And>w'. sends P n w') \<Longrightarrow> sends P (js_then m n) w"
  unfolding js_then_def by (rule sends_bind)

lemma sends_catch:
  assumes "sends P m w" and "\<And>e w'. sends P (h e) w'"
  shows "sends P (js_catch m h) w"
proof -
  from assms(1) obtain rs where rs: "requests (snd (m w)) = requests w @ rs" "list_all P rs"
    by (auto simp: sends_def)
  show ?thesis
  proof (cases "m w")
    case (Pair r w1)
    show ?thesis
    proof (cases r)
      case (Inr x)
      with Pair rs show ?thesis by (auto simp: sends_def js_catch_def)
    next
      case (Inl e)
      from assms(2) [of e w1] obtain rs' where
        "requests (snd (h e w1)) = requests w1 @ rs'" "list_all P rs'"
        by (auto simp: sends_def)
      with Pair Inl rs show ?thesis by (auto simp: sends_def js_catch_def)
    qed
  qed
qed

lemma sends_if: "sends P m w \<Longrightarrow> sends P n w \<Longrightarrow> sends P (if c then m else n) w"
  by simp

lemma sends_fetch: "P q \<Longrightarrow> sends P (fetch q net) w"
  by (auto simp: sends_def fetch_def Let_def split: fetched.splits)

lemma sends_leaves:
  "sends P (js_return x) w" "sends P (js_throw e) w" "sends P (js_lift r) w"
  "sends P (js_gets g) w" "sends P (getValue i) w" "sends P (alert a) w"
  by (rule sends_same, simp add: js_defs split: option.splits)+

lemma sends_resetForm: "sends P resetForm w"
  by (rule sends_same)
     (auto simp: js_defs form_defs split: option.splits prod.splits sum.splits)

lemma sends_fetchPosts:
  assumes "\<And>q. req_body q = None \<Longrightarrow> P q"
  shows "sends P (fetchPosts page net) w"
  unfolding sends_def fetchPosts_requests
  by (rule exI [of _ "if absent (getToken w) \<or> absent (getApiKey w) \<or> postsContainer w = None then []
        else [\<lparr>req_url = ''https://v2.api.noroff.dev/social/posts?limit=12&page=''
                          @ show_int page @ ''&_tag=petal-parlour&_author=true'',
                req_method = ''GET'',
                req_headers = [(''Authorization'', ''Bearer '' @ show_item (getToken w)),
                               (''x-Noroff-api-key'', show_item (getApiKey w))],
                req_body = None\<rparr>]"])
     (simp add: assms)

lemmas sends_intros = sends_bind sends_then sends_catch sends_if sends_fetch sends_leaves
  sends_resetForm sends_fetchPosts

lemma createPost_sends:
  "sends (\<lambda>q. \<forall>b. req_body q = Some b \<longrightarrow>
              (\<exists>rest. js_get_opt b ''tags'' = JArr (JStr ''petal-parlour'' # rest)))
     (createPost net) w"
  unfolding createPost_def Let_def
  by (intro sends_intros) simp_all

lemma updatePost_sends:
  "sends (\<lambda>q. \<forall>b. req_body q = Some b \<longrightarrow>
              (\<exists>rest. js_get_opt b ''tags'' = JArr (JStr ''petal-parlour'' # rest)))
     (updatePost net) w"
  unfolding updatePost_def Let_def
  by (intro sends_intros) simp_all

lemma tagged_inFeed:
  "js_get_opt b ''tags'' = JArr (JStr t # rest) \<Longrightarrow> queryParam url ''_tag'' = Some t \<Longrightarrow>
   inFeed url b"
  by (simp add: inFeed_def)

lemma sends_drop:
  "sends P m w \<Longrightarrow> \<forall>q \<in> set (drop (length (requests w)) (requests (snd (m w)))). P q"
  by (auto simp: sends_def list_all_iff)

lemma show_nat_digits: "set (show_nat n) \<subseteq> set ''0123456789''"
proof (induction n rule: show_nat.induct)
  case (1 n)
  have d: "''0123456789'' ! k \<in> set ''0123456789''" if "k < 10" for k
    using that by (intro nth_mem) simp
  show ?case
  proof (cases "n < 10")
    case True
    with d [of n] show ?thesis by (subst show_nat.simps) simp
  next
    case False
    with 1 d [of "n mod 10"] show ?thesis by (subst show_nat.simps) simp
  qed
qed

lemma show_int_no_separator: "CHR ''&'' \<notin> set (show_int i)"
  using show_nat_digits [of "nat i"] show_nat_digits [of "nat (- i)"]
  by (auto simp: show_int_def)

lemma splitOn_append: "c \<notin> set a \<Longrightarrow> splitOn c (a @ c # b) = a # splitOn c b"
  by (induction a) auto

lemma fetchPosts_url_tag:
  "queryParam (''https://v2.api.noroff.dev/social/posts?limit=12&page=''
                 @ show_int page @ ''&_tag=petal-parlour&_author=true'') ''_tag''
     = Some ''petal-parlour''"
proof -
  have "splitOn CHR ''&'' (show_int page @ ''&_tag=petal-parlour&_author=true'')
          = [show_int page, ''_tag=petal-parlour'', ''_author=true'']"
    using splitOn_append [OF show_int_no_separator, of page "''_tag=petal-parlour&_author=true''"]
    by simp
  then show ?thesis
    by (simp add: queryParam_def afterChar_def beforeChar_def)
qed

lemma fetchPosts_sends_tag:
  "sends (\<lambda>q. queryParam (req_url q) ''_tag'' = Some ''petal-parlour'') (fetchPosts page net) w"
  unfolding sends_def fetchPosts_requests
  by (rule exI [of _ "if absent (getToken w) \<or> absent (getApiKey w) \<or> postsContainer w = None then []
        else [\<lparr>req_url = ''https://v2.api.noroff.dev/social/posts?limit=12&page=''
                          @ show_int page @ ''&_tag=petal-parlour&_author=true'',
                req_method = ''GET'',
                req_headers = [(''Authorization'', ''Bearer '' @ show_item (getToken w)),
                               (''x-Noroff-api-key'', show_item (getApiKey w))],
                req_body = None\<rparr>]"])
     (simp add: fetchPosts_url_tag [simplified])

section \<open>The claims\<close>

text \<open>
  C1, as the code has it. For every response with a non-success status
  \<open>sendApiRequest\<close> fails. When the body is a JSON value other than \<^verbatim>\<open>null\<close>, the
  error carries the text of the server-supplied \<^verbatim>\<open>message\<close> if that is truthy, and
  the generic message \<^verbatim>\<open>Something went wrong\<close> if the body carries no message (or a
  falsy one). When the body is not JSON the error is the \<open>SyntaxError\<close> of
  \<^verbatim>\<open>response.json()\<close>, and when the body is \<^verbatim>\<open>null\<close> it is the \<open>TypeError\<close> of reading
  \<^verbatim>\<open>null.message\<close>: in neither case the generic message.
\<close>

theorem sendApiRequest_not_ok:
  assumes "net \<lparr>req_url = url, req_method = method,
                 req_headers = [(''Content-Type'', ''application/json'')],
                 req_body = Some body\<rparr> = Responded r"
      and "\<not> ok r"
  shows "(\<exists>e. fst (sendApiRequest url method body net w) = Inl e) \<and>
         (\<forall>d s. json r = Some d \<longrightarrow> d \<noteq> JNull \<longrightarrow> d \<noteq> JUndefined \<longrightarrow>
            truthy (js_get_opt d ''message'') \<longrightarrow>
            js_to_string (js_get_opt d ''message'') = Inr s \<longrightarrow>
            fst (sendApiRequest url method body net w) = Inl (Error s)) \<and>
         (\<forall>d. json r = Some d \<longrightarrow> d \<noteq> JNull \<longrightarrow> d \<noteq> JUndefined \<longrightarrow>
            \<not> truthy (js_get_opt d ''message'') \<longrightarrow>
            fst (sendApiRequest url method body net w) = Inl (Error ''Something went wrong'')) \<and>
         (json r = None \<longrightarrow> fst (sendApiRequest url method body net w) = Inl SyntaxError) \<and>
         (json r = Some JNull \<longrightarrow> fst (sendApiRequest url method body net w) = Inl TypeError)"
  using assms
  by (auto simp: sendApiRequest_result js_get_total js_or_def split: option.splits sum.splits)

theorem sendApiRequest_not_ok_witness:
  "always emailTaken
      \<lparr>req_url = ''https://v2.api.noroff.dev/auth/register'', req_method = ''POST'',
       req_headers = [(''Content-Type'', ''application/json'')],
       req_body = Some (JObj [])\<rparr> = Responded emailTaken \<and>
   \<not> ok emailTaken \<and>
   fst (sendApiRequest ''https://v2.api.noroff.dev/auth/register'' ''POST'' (JObj [])
          (always emailTaken) blankPage) = Inl (Error ''Email taken'')"
proof -
  have a: "always emailTaken
      \<lparr>req_url = ''https://v2.api.noroff.dev/auth/register'', req_method = ''POST'',
       req_headers = [(''Content-Type'', ''application/json'')],
       req_body = Some (JObj [])\<rparr> = Responded emailTaken"
    by (simp add: always_def)
  have b: "\<not> ok emailTaken"
    by (simp add: ok_def emailTaken_def)
  from sendApiRequest_not_ok [where net = "always emailTaken" and r = emailTaken
      and w = blankPage, OF a b] a b
  show ?thesis by (simp add: emailTaken_def)
qed

text \<open>
  C1 as stated fails: a 502 answer whose body is not JSON makes \<open>sendApiRequest\<close>
  fail with the \<open>SyntaxError\<close> of \<^verbatim>\<open>response.json()\<close>, not with the generic message.
\<close>

theorem sendApiRequest_unparsable_counterexample:
  "\<not> ok badGateway \<and> json badGateway = None \<and>
   fst (sendApiRequest ''https://v2.api.noroff.dev/auth/login'' ''POST'' (JObj [])
          (always badGateway) blankPage) = Inl SyntaxError \<and>
   fst (sendApiRequest ''https://v2.api.noroff.dev/auth/login'' ''POST'' (JObj [])
          (always badGateway) blankPage) \<noteq> Inl (Error ''Something went wrong'')"
  by (simp add: sendApiRequest_result always_def ok_def badGateway_def)

text \<open>
  C2, as the code has it. \<open>fetchPosts\<close> sets the \<^verbatim>\<open>disabled\<close> flag of the "load more"
  control and never clears it. After a completed cycle (credentials, container and
  control present, a success status, a body whose \<^verbatim>\<open>data\<close> is an array of posts that
  render and whose \<^verbatim>\<open>meta\<close> is an object) the control is disabled if and only if it was
  disabled before the cycle or the response's \<^verbatim>\<open>meta.isLastPage\<close> is truthy. A response
  with \<^verbatim>\<open>meta.isLastPage\<close> false leaves the control as it was: enabled if it was
  enabled.
\<close>

theorem fetchPosts_loadMore:
  assumes "\<not> absent (getToken w)" and "\<not> absent (getApiKey w)"
      and "postsContainer w = Some old" and "loadMoreBtn w = Some b"
      and "ok r" and "json r = Some (JObj kvs)"
      and "map_of kvs ''data'' = Some (JArr ps)" and "list_all renders ps"
      and "map_of kvs ''meta'' = Some (JObj m)"
  shows "loadMoreBtn (snd (fetchPosts page (always r) w))
           = Some (b \<or> truthy (js_get_opt (JObj m) ''isLastPage''))"
proof -
  let ?w1 = "w\<lparr>requests := requests w @
      [\<lparr>req_url = ''https://v2.api.noroff.dev/social/posts?limit=12&page=''
                          @ show_int page @ ''&_tag=petal-parlour&_author=true'',
                req_method = ''GET'',
                req_headers = [(''Authorization'', ''Bearer '' @ show_item (getToken w)),
                               (''x-Noroff-api-key'', show_item (getApiKey w))],
                req_body = None\<rparr>]\<rparr>"
  from displayPosts_ok [OF assms(8), of page ?w1]
  obtain c where c: "displayPosts (JArr ps) page ?w1 = (Inr (), ?w1\<lparr>postsContainer := c\<rparr>)"
    by blast
  show ?thesis
    using assms(1-7,9) c
    by (cases b)
       (simp_all add: fetchPosts_def js_defs Let_def disableLoadMore_def always_def)
qed

theorem fetchPosts_loadMore_witness:
  "\<not> absent (getToken feedPage) \<and> \<not> absent (getApiKey feedPage) \<and>
   postsContainer feedPage = Some [] \<and> loadMoreBtn feedPage = Some False \<and>
   ok lastPage \<and> list_all renders [peonyPost] \<and>
   loadMoreBtn (snd (fetchPosts 1 (always lastPage) feedPage)) = Some True \<and>
   ok morePages \<and> list_all renders [peonyPost, barePost] \<and>
   loadMoreBtn (snd (fetchPosts 1 (always morePages) feedPage)) = Some False"
proof -
  have a: "ok lastPage" "ok morePages"
    by (simp_all add: ok_def lastPage_def morePages_def)
  have b: "list_all renders [peonyPost]" "list_all renders [peonyPost, barePost]"
    by (simp_all add: renders_examples)
  have c: "json lastPage = Some (JObj [(''data'', JArr [peonyPost]),
                                       (''meta'', JObj [(''isLastPage'', JBool True)])])"
    by (simp add: lastPage_def)
  have d: "json morePages = Some (JObj [(''data'', JArr [peonyPost, barePost]),
                                        (''meta'', JObj [(''isLastPage'', JBool False)])])"
    by (simp add: morePages_def)
  have e: "map_of [(''data'', JArr [peonyPost]), (''meta'', JObj [(''isLastPage'', JBool True)])]
             ''data'' = Some (JArr [peonyPost])"
          "map_of [(''data'', JArr [peonyPost]), (''meta'', JObj [(''isLastPage'', JBool True)])]
             ''meta'' = Some (JObj [(''isLastPage'', JBool True)])"
          "map_of [(''data'', JArr [peonyPost, barePost]),
                   (''meta'', JObj [(''isLastPage'', JBool False)])]
             ''data'' = Some (JArr [peonyPost, barePost])"
          "map_of [(''data'', JArr [peonyPost, barePost]),
                   (''meta'', JObj [(''isLastPage'', JBool False)])]
             ''meta'' = Some (JObj [(''isLastPage'', JBool False)])"
    by simp_all
  from fetchPosts_loadMore [OF feedPage_ready a(1) c e(1) b(1) e(2), of 1]
       fetchPosts_loadMore [OF feedPage_ready a(2) d e(3) b(2) e(4), of 1]
       feedPage_ready a b
  show ?thesis by simp
qed

text \<open>
  C2 as stated fails: after a cycle whose response reports the last page, a later cycle
  whose response reports \<^verbatim>\<open>isLastPage\<close> false (a post was added meanwhile) completes
  and leaves the control disabled.
\<close>

theorem fetchPosts_stays_disabled_counterexample:
  "json morePages = Some (JObj [(''data'', JArr [peonyPost, barePost]),
                                (''meta'', JObj [(''isLastPage'', JBool False)])]) \<and>
   loadMoreBtn (snd (fetchPosts 1 (always morePages)
                       (snd (fetchPosts 1 (always lastPage) feedPage)))) = Some True \<and>
   alerts (snd (fetchPosts 1 (always morePages)
                  (snd (fetchPosts 1 (always lastPage) feedPage)))) = [] \<and>
   postsContainer (snd (fetchPosts 1 (always morePages)
                  (snd (fetchPosts 1 (always lastPage) feedPage)))) = Some [peonyCard, bareCard]"
  unfolding fetchPosts_lastPage
  by (simp add: fetchPosts_def js_defs Let_def disableLoadMore_def always_def morePages_def ok_def
        feedPage_def absent_def getToken_def getApiKey_def displayPosts_def
        renderCard_peonyPost renderCard_barePost show_int_def show_nat.simps show_item_def)

text \<open>
  C3, as the code has it. The submit binding of \<^verbatim>\<open>#addPostForm\<close> is a two-state toggle:
  where the form fields exist, \<open>editPost\<close> rebinds a form bound to the create action
  to the update action. A submission in edit mode that succeeds (credentials and post id
  present, a success status, a JSON body, the submit button there) rebinds the form to
  the create action. A submission in edit mode that the server answers with a
  non-success status leaves the form bound to the update action.
\<close>

theorem submit_binding_toggle:
  "(controls w ''title'' \<noteq> None \<and> controls w ''image'' \<noteq> None \<and>
    controls w ''location'' \<noteq> None \<and> controls w ''text'' \<noteq> None \<and>
    controls w ''postId'' \<noteq> None \<and> forms w ''addPostForm'' = Some [CreatePost] \<longrightarrow>
      forms (snd (editPost postId title imageUrl body location postDate w)) ''addPostForm''
        = Some [UpdatePost]) \<and>
   (\<not> absent (getToken w) \<and> \<not> absent (getApiKey w) \<and>
    controls w ''postId'' = Some c \<and> val c \<noteq> [] \<and>
    controls w ''title'' \<noteq> None \<and> controls w ''image'' \<noteq> None \<and>
    controls w ''location'' \<noteq> None \<and> controls w ''text'' \<noteq> None \<and>
    submitButton w \<noteq> None \<and> forms w ''addPostForm'' = Some [UpdatePost] \<and>
    (\<forall>q. req_method q = ''PUT'' \<longrightarrow> net q = Responded r) \<longrightarrow>
      (ok r \<and> json r \<noteq> None \<longrightarrow>
         forms (snd (updatePost net w)) ''addPostForm'' = Some [CreatePost]) \<and>
      (\<not> ok r \<longrightarrow>
         forms (snd (updatePost net w)) ''addPostForm'' = Some [UpdatePost]))"
  using editPost_forms [of w "[CreatePost]" postId title imageUrl body location postDate]
    updatePost_success [of w c "[UpdatePost]" net r]
    updatePost_failure [of net r w]
  by auto

theorem submit_binding_toggle_witness:
  "forms feedPage ''addPostForm'' = Some [CreatePost] \<and>
   forms (snd (editPost ''7'' ''Peony'' ''https://img.example/peony.png'' ''In bloom'' ''Oslo''
                 ''2024-09-29T10:00:00.000Z'' feedPage)) ''addPostForm'' = Some [UpdatePost] \<and>
   forms editingPage ''addPostForm'' = Some [UpdatePost] \<and>
   ok updated \<and> json updated \<noteq> None \<and>
   forms (snd (updatePost (always updated) editingPage)) ''addPostForm'' = Some [CreatePost] \<and>
   \<not> ok notFound \<and>
   forms (snd (updatePost (always notFound) editingPage)) ''addPostForm'' = Some [UpdatePost]"
proof -
  have a: "controls feedPage ''title'' \<noteq> None \<and> controls feedPage ''image'' \<noteq> None \<and>
    controls feedPage ''location'' \<noteq> None \<and> controls feedPage ''text'' \<noteq> None \<and>
    controls feedPage ''postId'' \<noteq> None \<and> forms feedPage ''addPostForm'' = Some [CreatePost]"
    by (simp add: feedPage_def)
  have b: "\<not> absent (getToken editingPage) \<and> \<not> absent (getApiKey editingPage) \<and>
    controls editingPage ''postId'' = Some (formField ''7'') \<and> val (formField ''7'') \<noteq> [] \<and>
    controls editingPage ''title'' \<noteq> None \<and> controls editingPage ''image'' \<noteq> None \<and>
    controls editingPage ''location'' \<noteq> None \<and> controls editingPage ''text'' \<noteq> None \<and>
    submitButton editingPage \<noteq> None \<and> forms editingPage ''addPostForm'' = Some [UpdatePost]"
    by (simp add: editingPage_facts absent_def formField_def)
  have c: "ok updated \<and> json updated \<noteq> None" "\<not> ok notFound"
    by (simp_all add: ok_def updated_def notFound_def)
  have d: "\<forall>q. req_method q = ''PUT'' \<longrightarrow> always r q = Responded r" for r
    by (simp add: always_def)
  from submit_binding_toggle [where w = feedPage and postId = "''7''" and title = "''Peony''"
         and imageUrl = "''https://img.example/peony.png''" and body = "''In bloom''"
         and location = "''Oslo''" and postDate = "''2024-09-29T10:00:00.000Z''"
         and c = "formField ''7''" and net = "always updated" and r = updated]
       submit_binding_toggle [where w = editingPage and c = "formField ''7''"
         and net = "always updated" and r = updated]
       submit_binding_toggle [where w = editingPage and c = "formField ''7''"
         and net = "always notFound" and r = notFound]
       a b c d
  show ?thesis by simp
qed

text \<open>
  C3 as stated fails: in edit mode a submission that the server rejects leaves the form
  bound to the update action; it is not rebound to the create action.
\<close>

theorem updatePost_failure_counterexample:
  "forms editingPage ''addPostForm'' = Some [UpdatePost] \<and>
   \<not> ok notFound \<and>
   forms (snd (updatePost (always notFound) editingPage)) ''addPostForm'' = Some [UpdatePost] \<and>
   forms (snd (updatePost (always notFound) editingPage)) ''addPostForm'' \<noteq> Some [CreatePost]"
proof -
  have "\<forall>q. req_method q = ''PUT'' \<longrightarrow> always notFound q = Responded notFound"
    by (simp add: always_def)
  moreover have "\<not> ok notFound"
    by (simp add: ok_def notFound_def)
  ultimately have "forms (snd (updatePost (always notFound) editingPage)) = forms editingPage"
    by (rule updatePost_failure)
  then show ?thesis
    by (simp add: editingPage_facts ok_def notFound_def)
qed

text \<open>
  C4, as the code has it. If the stored token or the stored API key is absent (or
  empty), \<open>fetchPosts\<close> and \<open>fetchSinglePost\<close> abort silently: they return and leave
  the world as it was, with no request issued and no message shown. \<open>createPost\<close> and
  \<open>updatePost\<close> issue no request either, but they do tell the user: \<open>createPost\<close>
  returns having shown one alert and changed nothing else, and so does \<open>updatePost\<close>
  where its \<^verbatim>\<open>#postId\<close> field exists.
\<close>

theorem missing_credentials_abort:
  assumes "absent (getToken w) \<or> absent (getApiKey w)"
  shows "fetchPosts page net w = (Inr (), w) \<and>
         fetchSinglePost postId net w = (Inr (), w) \<and>
         createPost net w =
           (Inr (), w\<lparr>alerts := alerts w @ [Text ''You must be logged in to create a post.'']\<rparr>) \<and>
         requests (snd (updatePost net w)) = requests w \<and>
         (controls w ''postId'' \<noteq> None \<longrightarrow>
            updatePost net w =
              (Inr (), w\<lparr>alerts := alerts w @
                 [Text ''You must be logged in, have an API key, and a valid post to update.'']\<rparr>))"
  using assms
  by (auto simp: fetchPosts_def fetchSinglePost_def createPost_def updatePost_def js_defs Let_def
           split: option.splits)

theorem missing_credentials_abort_witness:
  "absent (getToken signedOutPage) \<and>
   fetchPosts 1 (always lastPage) signedOutPage = (Inr (), signedOutPage) \<and>
   fetchSinglePost ''7'' (always updated) signedOutPage = (Inr (), signedOutPage) \<and>
   createPost (always updated) signedOutPage =
     (Inr (), signedOutPage\<lparr>alerts := [Text ''You must be logged in to create a post.'']\<rparr>) \<and>
   controls signedOutPage ''postId'' \<noteq> None \<and>
   updatePost (always updated) signedOutPage =
     (Inr (), signedOutPage\<lparr>alerts :=
        [Text ''You must be logged in, have an API key, and a valid post to update.'']\<rparr>)"
proof -
  have a: "absent (getToken signedOutPage)"
    by (simp add: absent_def getToken_def signedOutPage_def)
  then have b: "absent (getToken signedOutPage) \<or> absent (getApiKey signedOutPage)"
    by simp
  have c: "controls signedOutPage ''postId'' \<noteq> None" "alerts signedOutPage = []"
    by (simp_all add: signedOutPage_def feedPage_def)
  from missing_credentials_abort [OF b, of 1 "always lastPage" "''7''"]
       missing_credentials_abort [OF b, of 1 "always updated" "''7''"] a c
  show ?thesis by simp
qed

text \<open>
  C4 as stated fails: with no stored token \<open>createPost\<close> does show a message, and
  \<open>deletePost\<close>, which checks nothing, sends its request with the token \<^verbatim>\<open>null\<close>.
\<close>

theorem missing_credentials_counterexample:
  "absent (getToken signedOutPage) \<and> absent (getApiKey signedOutPage) \<and>
   alerts signedOutPage = [] \<and> requests signedOutPage = [] \<and>
   alerts (snd (createPost (always updated) signedOutPage))
     = [Text ''You must be logged in to create a post.''] \<and>
   requests (snd (deletePost ''7'' (always notFound) signedOutPage))
     = [\<lparr>req_url = ''https://v2.api.noroff.dev/social/posts/7'', req_method = ''DELETE'',
         req_headers = [(''Authorization'', ''Bearer null''), (''x-Noroff-api-key'', ''null'')],
         req_body = None\<rparr>]"
  by (simp add: createPost_def deletePost_def js_defs Let_def absent_def getToken_def
        getApiKey_def signedOutPage_def feedPage_def always_def notFound_def show_item_def)

text \<open>
  C5. Where the container exists, \<open>displayPosts\<close> on a sequence of posts leaves the
  world as it was but for the container. For page number 1 the container holds the new
  cards and nothing else: its prior content is gone. For a page number greater than 1
  it holds its prior content, unchanged and in front, followed by the new cards.
\<close>

theorem displayPosts_clears_or_appends:
  assumes "postsContainer w = Some old"
  shows "(page = 1 \<longrightarrow>
            snd (displayPosts (JArr ps) page w) = w\<lparr>postsContainer := Some (renderedCards ps)\<rparr>) \<and>
         (1 < page \<longrightarrow>
            snd (displayPosts (JArr ps) page w)
              = w\<lparr>postsContainer := Some (old @ renderedCards ps)\<rparr>)"
  using assms forEachPost_container [of w old ps]
    forEachPost_container [of "w\<lparr>postsContainer := Some []\<rparr>" "[]" ps]
  by (simp add: displayPosts_def)

theorem displayPosts_clears_or_appends_witness:
  "postsContainer (feedPage\<lparr>postsContainer := Some [peonyCard]\<rparr>) = Some [peonyCard] \<and>
   snd (displayPosts (JArr [barePost]) 1 (feedPage\<lparr>postsContainer := Some [peonyCard]\<rparr>))
     = feedPage\<lparr>postsContainer := Some [bareCard]\<rparr> \<and>
   (1::int) < 2 \<and>
   snd (displayPosts (JArr [barePost]) 2 (feedPage\<lparr>postsContainer := Some [peonyCard]\<rparr>))
     = feedPage\<lparr>postsContainer := Some [peonyCard, bareCard]\<rparr>"
proof -
  have a: "postsContainer (feedPage\<lparr>postsContainer := Some [peonyCard]\<rparr>) = Some [peonyCard]"
    by simp
  from displayPosts_clears_or_appends [OF a, of 1 "[barePost]"]
       displayPosts_clears_or_appends [OF a, of 2 "[barePost]"]
  show ?thesis by (simp add: renderCard_barePost)
qed

text \<open>
  C6. For every Post record, whichever of its optional fields are missing, the card
  renderer (the body of \<open>displayPosts\<close>'s loop) and the detail renderer both return a
  view and do not throw, and they decide field by field: a field that is missing (or the
  empty string) shows its default whatever the other fields are, and a field that is
  present shows its own value. The defaults are the placeholder image for
  \<^verbatim>\<open>media.url\<close>, \<^verbatim>\<open>Post Image\<close> for \<^verbatim>\<open>media.alt\<close>, \<^verbatim>\<open>Unknown\<close> for the tag at index 1,
  \<^verbatim>\<open>0\<close> for \<^verbatim>\<open>_count.reactions\<close>, \<^verbatim>\<open>Untitled Post\<close> for \<^verbatim>\<open>title\<close>, \<^verbatim>\<open>No content\<close> for
  \<^verbatim>\<open>body\<close> and \<^verbatim>\<open>Anonymous\<close> for \<^verbatim>\<open>author.name\<close>. The detail view shows the same
  texts as the card. \<open>displayPosts\<close> on the post returns normally and puts exactly that
  card into the container (after the cards already there, or alone on page 1), and
  \<open>displaySinglePost\<close> returns normally, replaces the content of \<^verbatim>\<open>#postDetails\<close> by
  exactly that detail view and sets the document title to the shown author followed by
  \<^verbatim>\<open>'s Post\<close>; where the container is not on the page, either function returns without
  changing anything.
\<close>

theorem renderers_default_missing_fields:
  assumes "isPost p"
  shows "\<exists>c d.
      renderCard p = Inr c \<and> renderDetail p = Inr d \<and>
      (missing (js_get_opt (js_get_opt p ''media'') ''url'') \<or>
       js_get_opt (js_get_opt p ''media'') ''url'' = JStr [] \<longrightarrow>
         card_image c = ''/assets/default-image.png'') \<and>
      (\<forall>s. js_get_opt (js_get_opt p ''media'') ''url'' = JStr s \<longrightarrow> s \<noteq> [] \<longrightarrow>
         card_image c = s) \<and>
      (missing (js_get_opt (js_get_opt p ''media'') ''alt'') \<or>
       js_get_opt (js_get_opt p ''media'') ''alt'' = JStr [] \<longrightarrow> card_alt c = ''Post Image'') \<and>
      (\<forall>s. js_get_opt (js_get_opt p ''media'') ''alt'' = JStr s \<longrightarrow> s \<noteq> [] \<longrightarrow>
         card_alt c = s) \<and>
      (missing (js_index_opt (js_get_opt p ''tags'') 1) \<or>
       js_index_opt (js_get_opt p ''tags'') 1 = JStr [] \<longrightarrow> card_location c = ''Unknown'') \<and>
      (\<forall>s. js_index_opt (js_get_opt p ''tags'') 1 = JStr s \<longrightarrow> s \<noteq> [] \<longrightarrow>
         card_location c = s) \<and>
      card_created c = js_get_opt p ''created'' \<and>
      (missing (js_get_opt (js_get_opt p ''_count'') ''reactions'') \<longrightarrow>
         card_reactions c = ''0'') \<and>
      (\<forall>n. js_get_opt (js_get_opt p ''_count'') ''reactions'' = JNum n \<longrightarrow>
         card_reactions c = show_int n) \<and>
      (missing (js_get_opt p ''title'') \<or> js_get_opt p ''title'' = JStr [] \<longrightarrow>
         card_title c = ''Untitled Post'') \<and>
      (\<forall>s. js_get_opt p ''title'' = JStr s \<longrightarrow> s \<noteq> [] \<longrightarrow> card_title c = s) \<and>
      (missing (js_get_opt p ''body'') \<or> js_get_opt p ''body'' = JStr [] \<longrightarrow>
         card_body c = ''No content'') \<and>
      (\<forall>s. js_get_opt p ''body'' = JStr s \<longrightarrow> s \<noteq> [] \<longrightarrow> card_body c = s) \<and>
      (missing (js_get_opt (js_get_opt p ''author'') ''name'') \<or>
       js_get_opt (js_get_opt p ''author'') ''name'' = JStr [] \<longrightarrow>
         card_author c = ''Anonymous'') \<and>
      (\<forall>s. js_get_opt (js_get_opt p ''author'') ''name'' = JStr s \<longrightarrow> s \<noteq> [] \<longrightarrow>
         card_author c = s) \<and>
      card_id c = js_get_opt p ''id'' \<and>
      detail_image d = card_image c \<and> detail_alt d = card_alt c \<and>
      detail_location d = card_location c \<and> detail_created d = card_created c \<and>
      detail_reactions d = card_reactions c \<and> detail_title d = card_title c \<and>
      detail_body d = card_body c \<and> detail_author d = card_author c \<and>
      (\<forall>page w old. postsContainer w = Some old \<longrightarrow>
         displayPosts (JArr [p]) page w =
           (Inr (), w\<lparr>postsContainer := Some ((if page = 1 then [] else old) @ [c])\<rparr>)) \<and>
      (\<forall>page w. postsContainer w = None \<longrightarrow> displayPosts (JArr [p]) page w = (Inr (), w)) \<and>
      (\<forall>w old. postDetails w = Some old \<longrightarrow>
         displaySinglePost p w =
           (Inr (), w\<lparr>docTitle := detail_author d @ [CHR 0x27] @ ''s Post'',
                       postDetails := Some [d]\<rparr>)) \<and>
      (\<forall>w. postDetails w = None \<longrightarrow> displaySinglePost p w = (Inr (), w))"
proof -
  note f = isPost_fields [OF assms]
  obtain t1 where t1: "js_to_string (js_or (js_get_opt (js_get_opt p ''media'') ''url'')
                          (JStr ''/assets/default-image.png'')) = Inr t1"
    and t1': "missing (js_get_opt (js_get_opt p ''media'') ''url'') \<or>
              js_get_opt (js_get_opt p ''media'') ''url'' = JStr [] \<longrightarrow>
                t1 = ''/assets/default-image.png''"
             "\<forall>s. js_get_opt (js_get_opt p ''media'') ''url'' = JStr s \<longrightarrow> s \<noteq> [] \<longrightarrow> t1 = s"
    using text_or_default [OF f(4)] by blast
  obtain t2 where t2: "js_to_string (js_or (js_get_opt (js_get_opt p ''media'') ''alt'')
                          (JStr ''Post Image'')) = Inr t2"
    and t2': "missing (js_get_opt (js_get_opt p ''media'') ''alt'') \<or>
              js_get_opt (js_get_opt p ''media'') ''alt'' = JStr [] \<longrightarrow> t2 = ''Post Image''"
             "\<forall>s. js_get_opt (js_get_opt p ''media'') ''alt'' = JStr s \<longrightarrow> s \<noteq> [] \<longrightarrow> t2 = s"
    using text_or_default [OF f(5)] by blast
  obtain t3 where t3: "js_to_string (js_or (js_index_opt (js_get_opt p ''tags'') 1)
                          (JStr ''Unknown'')) = Inr t3"
    and t3': "missing (js_index_opt (js_get_opt p ''tags'') 1) \<or>
              js_index_opt (js_get_opt p ''tags'') 1 = JStr [] \<longrightarrow> t3 = ''Unknown''"
             "\<forall>s. js_index_opt (js_get_opt p ''tags'') 1 = JStr s \<longrightarrow> s \<noteq> [] \<longrightarrow> t3 = s"
    using text_or_default [OF f(6)] by blast
  obtain t4 where t4: "js_to_string (js_or (js_get_opt (js_get_opt p ''_count'') ''reactions'')
                          (JNum 0)) = Inr t4"
    and t4': "missing (js_get_opt (js_get_opt p ''_count'') ''reactions'') \<longrightarrow> t4 = ''0''"
             "\<forall>n. js_get_opt (js_get_opt p ''_count'') ''reactions'' = JNum n \<longrightarrow> t4 = show_int n"
    using count_or_default [OF f(8)] by blast
  obtain t5 where t5: "js_to_string (js_or (js_get_opt p ''title'') (JStr ''Untitled Post'')) = Inr t5"
    and t5': "missing (js_get_opt p ''title'') \<or> js_get_opt p ''title'' = JStr [] \<longrightarrow>
                t5 = ''Untitled Post''"
             "\<forall>s. js_get_opt p ''title'' = JStr s \<longrightarrow> s \<noteq> [] \<longrightarrow> t5 = s"
    using text_or_default [OF f(1)] by blast
  obtain t6 where t6: "js_to_string (js_or (js_get_opt p ''body'') (JStr ''No content'')) = Inr t6"
    and t6': "missing (js_get_opt p ''body'') \<or> js_get_opt p ''body'' = JStr [] \<longrightarrow>
                t6 = ''No content''"
             "\<forall>s. js_get_opt p ''body'' = JStr s \<longrightarrow> s \<noteq> [] \<longrightarrow> t6 = s"
    using text_or_default [OF f(2)] by blast
  obtain t7 where t7: "js_to_string (js_or (js_get_opt (js_get_opt p ''author'') ''name'')
                          (JStr ''Anonymous'')) = Inr t7"
    and t7': "missing (js_get_opt (js_get_opt p ''author'') ''name'') \<or>
              js_get_opt (js_get_opt p ''author'') ''name'' = JStr [] \<longrightarrow> t7 = ''Anonymous''"
             "\<forall>s. js_get_opt (js_get_opt p ''author'') ''name'' = JStr s \<longrightarrow> s \<noteq> [] \<longrightarrow> t7 = s"
    using text_or_default [OF f(7)] by blast
  note g = isPost_get [OF assms] date_of_text [OF f(3)]
  let ?c = "\<lparr>card_image = t1, card_alt = t2, card_location = t3,
           card_created = js_get_opt p ''created'', card_reactions = t4, card_title = t5,
           card_body = t6, card_author = t7, card_id = js_get_opt p ''id''\<rparr>"
  let ?d = "\<lparr>detail_image = t1, detail_alt = t2, detail_location = t3,
           detail_created = js_get_opt p ''created'', detail_reactions = t4,
           detail_title = t5, detail_body = t6, detail_author = t7\<rparr>"
  have card: "renderCard p = Inr ?c"
    by (simp add: renderCard_def bindE_def g t1 t2 t3 t4 t5 t6 t7 del: One_nat_def)
  have det: "renderDetail p = Inr ?d"
    by (simp add: renderDetail_def bindE_def g t1 t2 t3 t4 t5 t6 t7 del: One_nat_def)
  have list: "displayPosts (JArr [p]) page w =
      (Inr (), w\<lparr>postsContainer := Some ((if page = 1 then [] else old) @ [?c])\<rparr>)"
    if "postsContainer w = Some old" for page w old
    using that by (simp add: displayPosts_def card)
  have single: "displaySinglePost p w =
      (Inr (), w\<lparr>docTitle := t7 @ [CHR 0x27] @ ''s Post'', postDetails := Some [?d]\<rparr>)"
    if "postDetails w = Some old" for w old
    using that by (simp add: displaySinglePost_def js_defs bindE_def g t7 det)
  have none: "displaySinglePost p w = (Inr (), w)" if "postDetails w = None" for w
    using that by (simp add: displaySinglePost_def)
  have nolist: "displayPosts (JArr [p]) page w = (Inr (), w)"
    if "postsContainer w = None" for page w
    using that by (simp add: displayPosts_def)
  show ?thesis
    apply (rule exI [of _ ?c])
    apply (rule exI [of _ ?d])
    using t1' t2' t3' t4' t5' t6' t7' list nolist single none
    apply (simp add: card det del: One_nat_def)
    done
qed

theorem renderers_default_missing_fields_witness:
  "isPost rosePost \<and>
   missing (js_get_opt (js_get_opt rosePost ''media'') ''url'') \<and>
   js_get_opt (js_get_opt rosePost ''author'') ''name'' = JStr ''kari'' \<and>
   missing (js_get_opt rosePost ''body'') \<and>
   js_index_opt (js_get_opt rosePost ''tags'') 1 = JStr ''Bergen'' \<and>
   js_get_opt (js_get_opt rosePost ''_count'') ''reactions'' = JNum 2 \<and>
   renderCard rosePost = Inr roseCard \<and> renderDetail rosePost = Inr roseDetail \<and>
   card_image roseCard = ''/assets/default-image.png'' \<and> card_author roseCard = ''kari'' \<and>
   card_body roseCard = ''No content'' \<and> card_location roseCard = ''Bergen'' \<and>
   card_reactions roseCard = ''2'' \<and>
   postsContainer feedPage = Some [] \<and>
   displayPosts (JArr [rosePost]) 1 feedPage
     = (Inr (), feedPage\<lparr>postsContainer := Some [roseCard]\<rparr>) \<and>
   postDetails postPage = Some [] \<and>
   displaySinglePost rosePost postPage
     = (Inr (), postPage\<lparr>docTitle := ''kari'' @ [CHR 0x27] @ ''s Post'',
                          postDetails := Some [roseDetail]\<rparr>)"
proof -
  have a: "isPost rosePost"
    by (simp add: isPost_def rosePost_def optText_def optCount_def isText_def)
  have b: "postsContainer feedPage = Some []" "postDetails postPage = Some []"
    by (simp_all add: feedPage_def postPage_def blankPage_def)
  from renderers_default_missing_fields [OF a] obtain c d where
    c: "renderCard rosePost = Inr c" and d: "renderDetail rosePost = Inr d"
    and l: "\<forall>page w old. postsContainer w = Some old \<longrightarrow>
         displayPosts (JArr [rosePost]) page w =
           (Inr (), w\<lparr>postsContainer := Some ((if page = 1 then [] else old) @ [c])\<rparr>)"
    and s: "\<forall>w old. postDetails w = Some old \<longrightarrow>
         displaySinglePost rosePost w =
           (Inr (), w\<lparr>docTitle := detail_author d @ [CHR 0x27] @ ''s Post'',
                       postDetails := Some [d]\<rparr>)"
    by (elim exE conjE) (rule that, assumption+)
  from c d have cd: "c = roseCard" "d = roseDetail"
    by (simp_all add: renderCard_rosePost renderDetail_rosePost)
  have l': "displayPosts (JArr [rosePost]) 1 feedPage
     = (Inr (), feedPage\<lparr>postsContainer := Some [roseCard]\<rparr>)"
    using l b(1) cd by simp
  have s': "displaySinglePost rosePost postPage
     = (Inr (), postPage\<lparr>docTitle := ''kari'' @ [CHR 0x27] @ ''s Post'',
                          postDetails := Some [roseDetail]\<rparr>)"
    using s b(2) cd by (simp add: roseDetail_def)
  show ?thesis
    using a b l' s'
    by (simp add: renderCard_rosePost renderDetail_rosePost)
       (simp add: rosePost_def roseCard_def missing_def)
qed

text \<open>
  C7, as the code has it. \<open>registerUser\<close> trims the three fields before it checks
  them. Whenever the trimmed name contains a character outside letters, digits and
  underscore, or the trimmed email does not end in \<^verbatim>\<open>@noroff.no\<close> or
  \<^verbatim>\<open>@stud.noroff.no\<close>, or the trimmed password is shorter than 8 characters,
  \<open>registerUser\<close> returns having shown exactly one alert and changed nothing else:
  no request is issued. The checks run in order (a field empty after trimming, the
  name, the email, the password) and the alert is that of the first check that fails.
\<close>

theorem registerUser_rejects:
  assumes "controls w ''registerName'' = Some c1"
      and "controls w ''registerEmail'' = Some c2"
      and "controls w ''registerPassword'' = Some c3"
      and "(\<exists>c \<in> set (trim (val c1)). \<not> wordChar c) \<or>
           \<not> (endsWith (trim (val c2)) ''@noroff.no'' \<or> endsWith (trim (val c2)) ''@stud.noroff.no'') \<or>
           length (trim (val c3)) < 8"
  shows "registerUser net w =
           (Inr (), w\<lparr>alerts := alerts w @
              [Text (if trim (val c1) = [] \<or> trim (val c2) = [] \<or> trim (val c3) = [] then
                       ''All required fields must be filled in.''
                     else if \<exists>c \<in> set (trim (val c1)). \<not> wordChar c then
                       ''The name must only contain letters, numbers, and underscores.''
                     else if \<not> (endsWith (trim (val c2)) ''@noroff.no'' \<or>
                                 endsWith (trim (val c2)) ''@stud.noroff.no'') then
                       ''Please use a valid Noroff email address.''
                     else ''Password must be at least 8 characters long.'')]\<rparr>) \<and>
         requests (snd (registerUser net w)) = requests w"
  using assms
  by (auto simp: registerUser_def js_defs Let_def nameRegex_def emailRegex_def list_all_iff)

theorem registerUser_rejects_witness:
  "controls (registerPage ''bad name!'' ''kari@stud.noroff.no'' ''hemmelig1'') ''registerName''
     = Some (field ''bad name!'') \<and>
   controls (registerPage ''bad name!'' ''kari@stud.noroff.no'' ''hemmelig1'') ''registerEmail''
     = Some (field ''kari@stud.noroff.no'') \<and>
   controls (registerPage ''bad name!'' ''kari@stud.noroff.no'' ''hemmelig1'') ''registerPassword''
     = Some (field ''hemmelig1'') \<and>
   \<not> wordChar (trim (val (field ''bad name!'')) ! 3) \<and>
   registerUser (always emailTaken) (registerPage ''bad name!'' ''kari@stud.noroff.no'' ''hemmelig1'')
     = (Inr (), (registerPage ''bad name!'' ''kari@stud.noroff.no'' ''hemmelig1'')
          \<lparr>alerts := [Text ''The name must only contain letters, numbers, and underscores.'']\<rparr>)"
proof -
  let ?w = "registerPage ''bad name!'' ''kari@stud.noroff.no'' ''hemmelig1''"
  have a: "controls ?w ''registerName'' = Some (field ''bad name!'')"
    and b: "controls ?w ''registerEmail'' = Some (field ''kari@stud.noroff.no'')"
    and c: "controls ?w ''registerPassword'' = Some (field ''hemmelig1'')"
    by (simp_all add: registerPage_def blankPage_def)
  have t: "trim (val (field ''bad name!'')) = ''bad name!''"
    by (simp add: trim_def isSpace_def field_def)
  have d: "\<not> wordChar (trim (val (field ''bad name!'')) ! 3)"
    unfolding t by (simp add: wordChar_def)
  have e: "(\<exists>c \<in> set (trim (val (field ''bad name!''))). \<not> wordChar c) \<or>
           \<not> (endsWith (trim (val (field ''kari@stud.noroff.no''))) ''@noroff.no'' \<or>
              endsWith (trim (val (field ''kari@stud.noroff.no''))) ''@stud.noroff.no'') \<or>
           length (trim (val (field ''hemmelig1''))) < 8"
    unfolding t by (simp add: wordChar_def)
  have al: "alerts ?w = []" by (simp add: registerPage_def blankPage_def)
  from registerUser_rejects [OF a b c e, of "always emailTaken"] a b c d
  show ?thesis
    unfolding al by (simp add: wordChar_def field_def trim_def isSpace_def endsWith_def)
qed

text \<open>
  C7 as stated fails: the name \<^verbatim>\<open>"kari "\<close> contains a space, yet with a valid email
  and password the registration request is sent, for the trimmed name \<^verbatim>\<open>"kari"\<close>.
\<close>

theorem registerUser_trim_counterexample:
  "\<not> wordChar (''kari '' ! 4) \<and>
   requests (snd (registerUser (always emailTaken)
                    (registerPage ''kari '' ''kari@stud.noroff.no'' ''hemmelig1'')))
     = [\<lparr>req_url = ''https://v2.api.noroff.dev/auth/register'', req_method = ''POST'',
         req_headers = [(''Content-Type'', ''application/json'')],
         req_body = Some (JObj [(''name'', JStr ''kari''), (''email'', JStr ''kari@stud.noroff.no''),
                                (''password'', JStr ''hemmelig1'')])\<rparr>]"
  by (simp add: registerUser_def sendApiRequest_result js_defs registerPage_def blankPage_def
        field_def trim_def isSpace_def nameRegex_def wordChar_def emailRegex_def endsWith_def
        always_def emailTaken_def ok_def Let_def js_or_def)

text \<open>
  C8. If the body of the login response has no truthy \<^verbatim>\<open>accessToken\<close>, neither at the
  top level nor under \<^verbatim>\<open>data\<close> (or has no JSON body at all), \<open>loginUser\<close> leaves
  \<^verbatim>\<open>localStorage\<close> and \<^verbatim>\<open>window.location.href\<close> as they were, whatever the status of
  the response and whatever the page holds.
\<close>

theorem loginUser_no_token:
  assumes "\<forall>d. json r = Some d \<longrightarrow>
             \<not> truthy (js_get_opt d ''accessToken'') \<and>
             \<not> truthy (js_get_opt (js_get_opt d ''data'') ''accessToken'')"
  shows "localStorage (snd (loginUser (always r) w)) = localStorage w \<and>
         href (snd (loginUser (always r) w)) = href w"
proof (cases "json r")
  case None
  then show ?thesis
    by (auto simp: loginUser_def sendApiRequest_result js_defs always_def Let_def
             split: option.splits sum.splits)
next
  case (Some d)
  show ?thesis
  proof (cases "d = JNull \<or> d = JUndefined")
    case True
    then show ?thesis
      using Some
      by (auto simp: loginUser_def sendApiRequest_result js_defs always_def Let_def
               split: option.splits sum.splits)
  next
    case False
    then have g: "\<And>k. js_get d k = Inr (js_get_opt d k)"
      by (simp add: js_get_total)
    show ?thesis
      using assms Some
      by (auto simp: loginUser_def sendApiRequest_result js_defs always_def Let_def g
               split: option.splits sum.splits)
  qed
qed

theorem loginUser_no_token_witness:
  "\<not> truthy (js_get_opt noTokenBody ''accessToken'') \<and>
   \<not> truthy (js_get_opt (js_get_opt noTokenBody ''data'') ''accessToken'') \<and>
   localStorage (snd (loginUser (always \<lparr>status = 200, json = Some noTokenBody\<rparr>)
                        (loginPage ''kari@stud.noroff.no'' ''hemmelig1''))) = Map.empty \<and>
   href (snd (loginUser (always \<lparr>status = 200, json = Some noTokenBody\<rparr>)
                (loginPage ''kari@stud.noroff.no'' ''hemmelig1''))) = ''login.html''"
proof -
  have a: "\<forall>d. json \<lparr>status = 200, json = Some noTokenBody\<rparr> = Some d \<longrightarrow>
             \<not> truthy (js_get_opt d ''accessToken'') \<and>
             \<not> truthy (js_get_opt (js_get_opt d ''data'') ''accessToken'')"
    by (simp add: noTokenBody_def)
  have b: "\<not> truthy (js_get_opt noTokenBody ''accessToken'')"
    by (simp add: noTokenBody_def)
  have c: "\<not> truthy (js_get_opt (js_get_opt noTokenBody ''data'') ''accessToken'')"
    by (simp add: noTokenBody_def)
  from loginUser_no_token [OF a, of "loginPage ''kari@stud.noroff.no'' ''hemmelig1''"] b c
  show ?thesis by (simp add: loginPage_def blankPage_def)
qed

text \<open>
  C9. Calling \<open>storeToken\<close> with a falsy argument (the empty string, \<^verbatim>\<open>null\<close>,
  \<^verbatim>\<open>undefined\<close>, and also \<^verbatim>\<open>false\<close> and \<^verbatim>\<open>0\<close>) is a no-op: it returns normally and
  leaves the whole world, the stored token and every other storage entry included, as
  it was.
\<close>

theorem storeToken_falsy_noop: "\<not> truthy token \<Longrightarrow> storeToken token w = (Inr (), w)"
  by (simp add: storeToken_def js_return_def)

theorem storeToken_falsy_noop_witness:
  "\<not> truthy (JStr '''') \<and> storeToken (JStr '''') feedPage = (Inr (), feedPage) \<and>
   \<not> truthy JNull \<and> storeToken JNull feedPage = (Inr (), feedPage) \<and>
   \<not> truthy JUndefined \<and> storeToken JUndefined feedPage = (Inr (), feedPage) \<and>
   localStorage feedPage ''jwtToken'' = Some ''tok''"
  using storeToken_falsy_noop [of "JStr ''''" feedPage] storeToken_falsy_noop [of JNull feedPage]
    storeToken_falsy_noop [of JUndefined feedPage]
  by (simp add: feedPage_def)

text \<open>
  C10. Every request with a body that \<open>createPost\<close> or \<open>updatePost\<close> sends has a
  \<^verbatim>\<open>tags\<close> array whose first element is \<^verbatim>\<open>petal-parlour\<close>, and every request
  \<open>fetchPosts\<close> sends carries that same tag as the \<^verbatim>\<open>_tag\<close> parameter of its query:
  whatever the page holds and whatever the server answers. So every post these two
  functions send is in the scope of every feed query \<open>fetchPosts\<close> sends, by the
  glossary's reading of the tag filter. (The requests an operation sends are those it
  adds to the ones issued before it.)
\<close>

theorem feed_tag_on_every_post:
  "(\<forall>q \<in> set (drop (length (requests w)) (requests (snd (createPost net w)))).
      \<forall>b. req_body q = Some b \<longrightarrow>
        (\<exists>rest. js_get_opt b ''tags'' = JArr (JStr ''petal-parlour'' # rest))) \<and>
   (\<forall>q \<in> set (drop (length (requests w)) (requests (snd (updatePost net w)))).
      \<forall>b. req_body q = Some b \<longrightarrow>
        (\<exists>rest. js_get_opt b ''tags'' = JArr (JStr ''petal-parlour'' # rest))) \<and>
   (\<forall>q \<in> set (drop (length (requests w)) (requests (snd (fetchPosts page net w)))).
      queryParam (req_url q) ''_tag'' = Some ''petal-parlour'') \<and>
   (\<forall>q \<in> set (drop (length (requests w)) (requests (snd (createPost net w)))) \<union>
           set (drop (length (requests w)) (requests (snd (updatePost net w)))).
      \<forall>b. req_body q = Some b \<longrightarrow>
        (\<forall>q' \<in> set (drop (length (requests w')) (requests (snd (fetchPosts page' net' w')))).
           inFeed (req_url q') b))"
proof -
  note c = sends_drop [OF createPost_sends [of net w]]
  note u = sends_drop [OF updatePost_sends [of net w]]
  note f = sends_drop [OF fetchPosts_sends_tag [of page net w]]
  note f' = sends_drop [OF fetchPosts_sends_tag [of page' net' w']]
  have "inFeed (req_url q') b"
    if "q \<in> set (drop (length (requests w)) (requests (snd (createPost net w)))) \<union>
            set (drop (length (requests w)) (requests (snd (updatePost net w))))"
      and "req_body q = Some b"
      and "q' \<in> set (drop (length (requests w')) (requests (snd (fetchPosts page' net' w'))))"
    for q b q'
  proof -
    from that(1,2) c u obtain rest where
      "js_get_opt b ''tags'' = JArr (JStr ''petal-parlour'' # rest)"
      by blast
    moreover from that(3) f' have "queryParam (req_url q') ''_tag'' = Some ''petal-parlour''"
      by blast
    ultimately show ?thesis by (rule tagged_inFeed)
  qed
  with c u f show ?thesis by blast
qed

theorem feed_tag_on_every_post_witness:
  "createRequest \<in> set (drop (length (requests composePage))
                           (requests (snd (createPost (always updated) composePage)))) \<and>
   req_body createRequest = Some createBody \<and>
   js_get_opt createBody ''tags'' = JArr [JStr ''petal-parlour'', JStr ''Oslo''] \<and>
   updateRequest \<in> set (drop (length (requests editingPage))
                           (requests (snd (updatePost (always updated) editingPage)))) \<and>
   req_body updateRequest = Some updateBody \<and>
   js_get_opt updateBody ''tags'' = JArr [JStr ''petal-parlour'', JStr ''Oslo''] \<and>
   feedRequest \<in> set (drop (length (requests feedPage))
                         (requests (snd (fetchPosts 2 (always lastPage) feedPage)))) \<and>
   queryParam (req_url feedRequest) ''_tag'' = Some ''petal-parlour'' \<and>
   inFeed (req_url feedRequest) createBody \<and> inFeed (req_url feedRequest) updateBody"
proof -
  have a: "createRequest \<in> set (drop (length (requests composePage))
                           (requests (snd (createPost (always updated) composePage))))"
    by (simp add: createPost_def js_steps form_defs Let_def fetchPosts_requests composePage_def
          feedPage_def getToken_def getApiKey_def absent_def always_def updated_def ok_def
          createRequest_def createBody_def formField_def str_or_def show_item_def)
  have b: "updateRequest \<in> set (drop (length (requests editingPage))
                           (requests (snd (updatePost (always updated) editingPage))))"
    by (simp add: updatePost_def js_steps form_defs Let_def fetchPosts_requests editingPage_facts
          absent_def always_def updated_def ok_def
          updateRequest_def updateBody_def formField_def str_or_def show_item_def)
  have c: "feedRequest \<in> set (drop (length (requests feedPage))
                         (requests (snd (fetchPosts 2 (always lastPage) feedPage))))"
    by (simp add: fetchPosts_requests feedPage_def getToken_def getApiKey_def absent_def
          feedRequest_def show_item_def show_int_def show_nat.simps)
  have d: "req_body createRequest = Some createBody" "req_body updateRequest = Some updateBody"
    by (simp_all add: createRequest_def updateRequest_def)
  have e: "js_get_opt createBody ''tags'' = JArr [JStr ''petal-parlour'', JStr ''Oslo'']"
          "js_get_opt updateBody ''tags'' = JArr [JStr ''petal-parlour'', JStr ''Oslo'']"
    by (simp_all add: createBody_def updateBody_def)
  note t1 = feed_tag_on_every_post [where w = composePage and net = "always updated"
      and page = 2 and w' = feedPage and page' = 2 and net' = "always lastPage"]
  note t2 = feed_tag_on_every_post [where w = editingPage and net = "always updated"
      and page = 2 and w' = feedPage and page' = 2 and net' = "always lastPage"]
  note t3 = feed_tag_on_every_post [where w = feedPage and net = "always lastPage"
      and page = 2 and w' = feedPage and page' = 2 and net' = "always lastPage"]
  have f: "queryParam (req_url feedRequest) ''_tag'' = Some ''petal-parlour''"
    using t3 c by blast
  have g1: "inFeed (req_url feedRequest) createBody"
    using t1 a c d(1) by blast
  have g2: "inFeed (req_url feedRequest) updateBody"
    using t2 b c d(2) by blast
  show ?thesis
    using a b c d e f g1 g2 by simp
qed

end
